theory Spec2Isabelle
  imports Complex_Main "HOL-Library.Multiset"
begin

section \<open>Data model (types.ts)\<close>

text \<open>
  The store application keeps one in-memory state (\<open>AppState\<close>) and mirrors it in a
  hosted relational store through an adapter (\<open>api\<close>).  This theory embeds the stock and
  ledger actions of the state container and the adapter functions they call.

  Conventions of the embedding:
  \<^item> a JavaScript \<open>number\<close> is an exact rational (\<open>rat\<close>); rounding of floating point is
    outside the model.  The two divisions of the source are written with \<open>js_div\<close>,
    which has no finite value for a zero divisor (\<open>NaN\<close> or an infinity in the source);
  \<^item> an ISO date string is represented by the millisecond value that
    \<open>new Date(s).getTime()\<close> reads from it (an \<open>int\<close>); strings that are no dates are
    outside the model;
  \<^item> an optional field is an \<open>option\<close>; \<open>undefined\<close>, \<open>null\<close> and a missing key are all
    \<open>None\<close>;
  \<^item> user-facing messages and ledger descriptions, which the source builds from
    Persian template strings, are values of the datatypes \<open>message\<close>, \<open>toast\<close> and
    \<open>description\<close>, one constructor per template;
  \<^item> \<open>crypto.randomUUID()\<close>, \<open>new Date()\<close>, \<open>navigator.onLine\<close> and the logged-in
    user are inputs of an action (\<open>env\<close>).
\<close>

type_synonym date = int

record ProductBatch =
  b_id :: string
  b_lotNumber :: string
  b_stock :: rat
  b_purchasePrice :: rat
  b_purchaseDate :: date
  b_expiryDate :: "date option"

record Product =
  p_id :: string
  p_name :: string
  p_salePrice :: rat
  p_batches :: "ProductBatch list"
  p_barcode :: "string option"
  p_manufacturer :: "string option"
  p_itemsPerPackage :: "rat option"

text \<open>\<open>InvoiceItem extends Product\<close>.  \<open>i_purchasePrice = None\<close> stands for a unit cost that
  is no finite number (the quotient by a zero quantity).\<close>

record InvoiceItem = Product +
  i_quantity :: rat
  i_purchasePrice :: "rat option"
  i_finalPrice :: "rat option"

text \<open>A service line of a cart: \<open>Service & { quantity; type: 'service' }\<close>.  Lines read back
  from the store also carry the key \<open>salePrice\<close>, which the adapter reads through
  \<open>(item as any).salePrice\<close>.\<close>

record ServiceLine =
  s_id :: string
  s_name :: string
  s_price :: rat
  s_quantity :: rat
  s_salePrice :: "rat option"

datatype CartItem = ProductItem InvoiceItem | ServiceItem ServiceLine

text \<open>The \<open>type\<close> of a cart line.\<close>

datatype item_kind = product | service

fun item_id :: "CartItem \<Rightarrow> string" where
  "item_id (ProductItem it) = p_id it"
| "item_id (ServiceItem s) = s_id s"

fun item_name :: "CartItem \<Rightarrow> string" where
  "item_name (ProductItem it) = p_name it"
| "item_name (ServiceItem s) = s_name s"

fun item_quantity :: "CartItem \<Rightarrow> rat" where
  "item_quantity (ProductItem it) = i_quantity it"
| "item_quantity (ServiceItem s) = s_quantity s"

fun is_product :: "CartItem \<Rightarrow> bool" where
  "is_product (ProductItem it) = True"
| "is_product (ServiceItem s) = False"

datatype invoice_kind = Sale | Return

record SaleInvoice =
  si_id :: string
  si_type :: invoice_kind
  si_originalInvoiceId :: "string option"
  si_items :: "CartItem list"
  si_subtotal :: rat
  si_totalDiscount :: rat
  si_totalAmount :: rat
  si_timestamp :: date
  si_cashier :: string
  si_customerId :: "string option"

record PurchaseInvoiceItem =
  pi_productId :: string
  pi_productName :: string
  pi_quantity :: rat
  pi_purchasePrice :: rat
  pi_lotNumber :: string
  pi_expiryDate :: "date option"

datatype purchase_kind = Purchase | PurchaseReturn

datatype currency = AFN | USD

record PurchaseInvoice =
  pu_id :: string
  pu_type :: purchase_kind
  pu_originalInvoiceId :: "string option"
  pu_supplierId :: string
  pu_invoiceNumber :: string
  pu_items :: "PurchaseInvoiceItem list"
  pu_totalAmount :: rat
  pu_timestamp :: date
  pu_currency :: "currency option"
  pu_exchangeRate :: "rat option"

text \<open>Ledger descriptions, one constructor per template string of the source.\<close>

datatype description =
    SaleInvoiceNo string
  | SaleInvoiceEditedNo string
  | SaleReturnOf "string option"
  | PurchaseInvoiceNo string "int option"
  | PurchaseReturnOf "string option"
  | MonthlySalary
  | Advance
  | FreeText string

datatype customer_tx_kind = credit_sale | payment | sale_return

record CustomerTransaction =
  ct_id :: string
  ct_customerId :: string
  ct_type :: customer_tx_kind
  ct_amount :: rat
  ct_date :: date
  ct_description :: description
  ct_invoiceId :: "string option"

datatype supplier_tx_kind = purchase | supplier_payment | purchase_return

text \<open>\<open>st_amount = None\<close>: the face amount is no finite number (a quotient by a zero rate).\<close>

record SupplierTransaction =
  st_id :: string
  st_supplierId :: string
  st_type :: supplier_tx_kind
  st_amount :: "rat option"
  st_date :: date
  st_description :: description
  st_invoiceId :: "string option"
  st_currency :: "currency option"

datatype payroll_tx_kind = advance | salary_payment

record PayrollTransaction =
  pt_id :: string
  pt_employeeId :: string
  pt_type :: payroll_tx_kind
  pt_amount :: rat
  pt_date :: date
  pt_description :: description

text \<open>
  Parties.  A customer or supplier of the local state is either an object built by the
  application, with the keys of \<open>types.ts\<close>, or a row of the store as \<open>getEntities\<close> returns
  it, with the columns of the table: \<open>getEntities\<close> converts the balance and renames no
  key.  So the credit limit of a customer is under the key \<open>creditLimit\<close> in the first case
  and \<open>credit_limit\<close> in the second, and likewise \<open>contactPerson\<close> and \<open>contact_person\<close> for
  a supplier; the records have both keys.  A row of the store never has the first.  For an
  employee \<open>getEntities\<close> sets \<open>monthlySalary\<close> from the column \<open>monthly_salary\<close>; the one
  field \<open>e_monthlySalary\<close> stands for both.
\<close>

record Customer =
  c_id :: string
  c_name :: string
  c_phone :: "string option"
  c_creditLimit :: "rat option"
  c_credit_limit :: "rat option"
  c_balance :: rat

record Supplier =
  sup_id :: string
  sup_name :: string
  sup_contactPerson :: "string option"
  sup_contact_person :: "string option"
  sup_phone :: "string option"
  sup_address :: "string option"
  sup_balance :: rat

record Employee =
  e_id :: string
  e_name :: string
  e_position :: string
  e_monthlySalary :: rat
  e_balance :: rat

datatype expense_category = rent | utilities | supplies | salary | other

record Expense =
  x_id :: string
  x_category :: expense_category
  x_description :: description
  x_amount :: rat
  x_date :: date

datatype activity_kind = act_sale | act_purchase | act_inventory | act_login | act_payroll

datatype activity_text =
    SaleRegistered string rat
  | SaleEdited string
  | SaleReturnRegistered string
  | PurchaseRegistered
  | PurchaseReturnRegistered
  | SalariesPaid rat

datatype ref_kind = saleInvoice | purchaseInvoice | productRef

record ActivityLog =
  a_id :: string
  a_type :: activity_kind
  a_description :: activity_text
  a_timestamp :: date
  a_user :: string
  a_refId :: "string option"
  a_refType :: "ref_kind option"

text \<open>The application state.  Store settings, the service catalogue, users, roles and the
  invoice counter, which the modelled actions neither read nor write, are left out.\<close>

record AppState =
  products :: "Product list"
  saleInvoices :: "SaleInvoice list"
  purchaseInvoices :: "PurchaseInvoice list"
  customers :: "Customer list"
  suppliers :: "Supplier list"
  employees :: "Employee list"
  expenses :: "Expense list"
  cart :: "CartItem list"
  customerTransactions :: "CustomerTransaction list"
  supplierTransactions :: "SupplierTransaction list"
  payrollTransactions :: "PayrollTransaction list"
  activities :: "ActivityLog list"
  editingSaleInvoiceId :: "string option"
  editingPurchaseInvoiceId :: "string option"

record env =
  online :: bool
  now :: date
  uuid :: "nat \<Rightarrow> string"
  user :: string

section \<open>Helpers for JavaScript idioms\<close>

text \<open>\<open>a / b\<close>: no finite number for a zero divisor.\<close>

definition js_div :: "rat \<Rightarrow> rat \<Rightarrow> rat option" where
  "js_div a b = (if b = 0 then None else Some (a / b))"

text \<open>Truthiness of an optional string (\<open>if (customerId)\<close>): the empty string is falsy.\<close>

definition truthy :: "string option \<Rightarrow> bool" where
  "truthy x = (case x of None \<Rightarrow> False | Some s \<Rightarrow> s \<noteq> [])"

text \<open>\<open>Array.prototype.findIndex\<close>; \<open>None\<close> is the source's \<open>-1\<close>.\<close>

fun findIndex :: "('a \<Rightarrow> bool) \<Rightarrow> 'a list \<Rightarrow> nat option" where
  "findIndex P [] = None"
| "findIndex P (x # xs) =
     (if P x then Some 0 else (case findIndex P xs of None \<Rightarrow> None | Some k \<Rightarrow> Some (Suc k)))"

subsection \<open>generateNextId\<close>

definition is_digit :: "char \<Rightarrow> bool" where
  "is_digit c = (48 \<le> (of_char c :: nat) \<and> (of_char c :: nat) \<le> 57)"

definition parseInt :: "string \<Rightarrow> nat" where
  "parseInt ds = foldl (\<lambda>n c. 10 * n + ((of_char c :: nat) - 48)) 0 ds"

text \<open>The match of \<open>^prefix(\\d+)$\<close> against an id, as the number of its digits.\<close>

definition match_id :: "string \<Rightarrow> string \<Rightarrow> nat option" where
  "match_id prefix i =
     (let ds = drop (length prefix) i
      in if take (length prefix) i = prefix \<and> ds \<noteq> [] \<and> list_all is_digit ds
         then Some (parseInt ds) else None)"

fun decimal :: "nat \<Rightarrow> string" where
  "decimal n =
     (if n < 10 then [char_of (48 + n)]
      else decimal (n div 10) @ [char_of (48 + n mod 10)])"

declare decimal.simps [simp del]

definition generateNextId :: "string \<Rightarrow> string list \<Rightarrow> string" where
  "generateNextId prefix ids =
     (let mx = foldl (\<lambda>m i. case match_id prefix i of
                               None \<Rightarrow> m
                             | Some n \<Rightarrow> if n < 100000000000 \<and> n > m then n else m) 0 ids
      in prefix @ decimal (mx + 1))"

section \<open>Sale completion (completeSale)\<close>

subsection \<open>Prices and totals\<close>

text \<open>\<open>getPrice\<close> returns \<open>{ final, original }\<close>, here the pair \<open>(final, original)\<close>.\<close>

fun getPrice :: "CartItem \<Rightarrow> rat \<times> rat" where
  "getPrice (ProductItem it) =
     ((case i_finalPrice it of Some f \<Rightarrow> f | None \<Rightarrow> p_salePrice it), p_salePrice it)"
| "getPrice (ServiceItem s) = (s_price s, s_price s)"

definition newSubtotal :: "CartItem list \<Rightarrow> rat" where
  "newSubtotal cart_items = foldl (\<lambda>total item. snd (getPrice item) * item_quantity item + total) 0 cart_items"

definition newTotalAmount :: "CartItem list \<Rightarrow> rat" where
  "newTotalAmount cart_items = foldl (\<lambda>total item. fst (getPrice item) * item_quantity item + total) 0 cart_items"

subsection \<open>Stock deduction\<close>

text \<open>
  The source filters and sorts references to the batch objects of the (copied) product and
  then mutates them through these references.  The model keeps the references as
  positions in the product's batch list: \<open>deductionOrder\<close> is the list of positions in
  the order of consumption, and \<open>deduct\<close> updates the batch list at these positions.
  \<open>Array.prototype.sort\<close> is stable, as \<open>sort_key\<close> is.
\<close>

definition expiryTime :: "ProductBatch \<Rightarrow> int" where
  "expiryTime b = (case b_expiryDate b of Some d \<Rightarrow> d | None \<Rightarrow> 0)"

definition deductionOrder :: "ProductBatch list \<Rightarrow> nat list" where
  "deductionOrder bs =
     (let batchesWithExpiry =
            sort_key (\<lambda>i. expiryTime (bs ! i))
              (filter (\<lambda>i. b_expiryDate (bs ! i) \<noteq> None \<and> b_stock (bs ! i) > 0) [0..<length bs]);
          batchesWithoutExpiry =
            sort_key (\<lambda>i. b_purchaseDate (bs ! i))
              (filter (\<lambda>i. b_expiryDate (bs ! i) = None \<and> b_stock (bs ! i) > 0) [0..<length bs])
      in batchesWithExpiry @ batchesWithoutExpiry)"

record stock_update =
  su_batchId :: string
  su_newStock :: rat

text \<open>The inner loop over \<open>deductionOrder\<close>; its state is \<open>quantityToDeduct\<close>,
  \<open>totalPurchaseValue\<close>, the batches of the product and \<open>stockUpdates\<close>.\<close>

fun deduct :: "nat list \<Rightarrow> rat \<Rightarrow> rat \<Rightarrow> ProductBatch list \<Rightarrow> stock_update list
    \<Rightarrow> rat \<times> rat \<times> ProductBatch list \<times> stock_update list" where
  "deduct [] quantityToDeduct totalPurchaseValue bs stockUpdates =
     (quantityToDeduct, totalPurchaseValue, bs, stockUpdates)"
| "deduct (i # order) quantityToDeduct totalPurchaseValue bs stockUpdates =
     (if quantityToDeduct \<le> 0 then (quantityToDeduct, totalPurchaseValue, bs, stockUpdates)
      else
        let batch = bs ! i;
            deductAmount = min quantityToDeduct (b_stock batch);
            batch' = batch\<lparr>b_stock := b_stock batch - deductAmount\<rparr>
        in deduct order (quantityToDeduct - deductAmount)
             (totalPurchaseValue + deductAmount * b_purchasePrice batch)
             (bs[i := batch'])
             (stockUpdates @ [\<lparr>su_batchId = b_id batch', su_newStock = b_stock batch'\<rparr>]))"

datatype message =
    Offline
  | CartEmpty
  | ProductNotFound string
  | InsufficientStock string
  | RegisteringInvoice
  | InvoiceNotFound
  | OriginalInvoiceNotFound
  | InvalidSupplier
  | Registering
  | RegisteringReturn
  | NoSalaryToPay
  | Processing

text \<open>The loop over the cart; its state is \<open>updatedProducts\<close>, \<open>stockUpdates\<close> and
  \<open>saleItemsWithPurchasePrice\<close>.  \<open>Inl\<close> is the early \<open>return { success: false, ... }\<close>.\<close>

fun cart_loop :: "CartItem list \<Rightarrow> Product list \<Rightarrow> stock_update list \<Rightarrow> CartItem list
    \<Rightarrow> message + (Product list \<times> stock_update list \<times> CartItem list)" where
  "cart_loop [] updatedProducts stockUpdates saleItems = Inr (updatedProducts, stockUpdates, saleItems)"
| "cart_loop (ServiceItem s # rest) updatedProducts stockUpdates saleItems =
     cart_loop rest updatedProducts stockUpdates (saleItems @ [ServiceItem s])"
| "cart_loop (ProductItem item # rest) updatedProducts stockUpdates saleItems =
     (case findIndex (\<lambda>p. p_id p = p_id item) updatedProducts of
        None \<Rightarrow> Inl (ProductNotFound (p_name item))
      | Some productIndex \<Rightarrow>
          let product = updatedProducts ! productIndex in
          (case deduct (deductionOrder (p_batches product)) (i_quantity item) 0
                  (p_batches product) stockUpdates of
             (quantityToDeduct, totalPurchaseValue, bs', stockUpdates') \<Rightarrow>
               if quantityToDeduct > 0 then Inl (InsufficientStock (p_name item))
               else cart_loop rest
                      (updatedProducts[productIndex := product\<lparr>p_batches := bs'\<rparr>])
                      stockUpdates'
                      (saleItems @ [ProductItem
                         (item\<lparr>i_purchasePrice := js_div totalPurchaseValue (i_quantity item)\<rparr>)])))"

subsection \<open>Requests to the adapter\<close>

record customer_update =
  cu_id :: string
  cu_newBalance :: rat
  cu_transaction :: CustomerTransaction

record stock_restore =
  sr_productId :: string
  sr_quantity :: rat

record stock_deduction =
  sd_batchId :: string
  sd_quantity :: rat

record cust_update_params =
  cp_id :: string
  cp_oldAmount :: rat
  cp_newAmount :: rat
  cp_transactionDescription :: description

record party_amount =
  pa_id :: string
  pa_amount :: rat

record supplier_update =
  spu_id :: string
  spu_newBalance :: rat
  spu_transaction :: SupplierTransaction

text \<open>A new batch as \<open>addPurchaseInvoice\<close> builds it: the batch and the key \<open>productId\<close>.\<close>

record new_batch =
  nb_productId :: string
  nb_batch :: ProductBatch

record lot_deduction =
  ld_productId :: string
  ld_quantity :: rat
  ld_lotNumber :: string

text \<open>One constructor per adapter function that the modelled actions call, with its
  arguments.\<close>

datatype api_call =
    CreateSale SaleInvoice "stock_update list" "customer_update option"
  | UpdateSale string SaleInvoice "stock_restore list" "stock_deduction list"
      "cust_update_params option"
  | CreateSaleReturn SaleInvoice "stock_restore list" "party_amount option"
  | CreatePurchase PurchaseInvoice supplier_update "new_batch list"
  | CreatePurchaseReturn PurchaseInvoice "lot_deduction list" party_amount
  | ProcessPayroll "string list" "PayrollTransaction list" Expense

datatype toast =
    InvoiceRegistered
  | InvoiceEdited
  | InvoiceServerError
  | ReturnRegistered
  | ReturnError
  | PurchaseInvoiceRegistered
  | PurchaseInvoiceError
  | PurchaseReturnDone
  | SalariesWerePaid

record action_result =
  success :: bool
  invoice :: "SaleInvoice option"
  message :: message

text \<open>
  What an action does, seen from the state container: the value it returns, the adapter
  call it makes (if any), the toasts it shows, the activity that \<open>addActivityLocal\<close>
  records (it is put in front of the local activities and sent to the store), the local
  state once the promise of the call has settled and its callbacks have run, and whether
  a callback asked for \<open>fetchData()\<close>, which then replaces the local state by what the
  store holds.
\<close>

record outcome =
  returned :: action_result
  call :: "api_call option"
  toasts :: "toast list"
  logged :: "ActivityLog option"
  local_state :: AppState
  refetch :: bool

definition failure :: "AppState \<Rightarrow> message \<Rightarrow> outcome" where
  "failure st msg =
     \<lparr>returned = \<lparr>success = False, invoice = None, message = msg\<rparr>,
      call = None, toasts = [], logged = None, local_state = st, refetch = False\<rparr>"

text \<open>The entry that \<open>addActivityLocal\<close> builds, and its local effect.\<close>

definition new_activity :: "env \<Rightarrow> nat \<Rightarrow> activity_kind \<Rightarrow> activity_text \<Rightarrow> string
    \<Rightarrow> string option \<Rightarrow> ref_kind option \<Rightarrow> ActivityLog" where
  "new_activity ev k ty descr usr refId refType =
     \<lparr>a_id = uuid ev k, a_type = ty, a_description = descr, a_timestamp = now ev,
      a_user = usr, a_refId = refId, a_refType = refType\<rparr>"

definition addActivityLocal :: "ActivityLog \<Rightarrow> AppState \<Rightarrow> AppState" where
  "addActivityLocal entry st = st\<lparr>activities := entry # activities st\<rparr>"

subsection \<open>completeSale\<close>

text \<open>The quantity that edit mode asks the adapter to deduct from a batch: the batch's
  stock in \<open>state.products\<close> minus the new stock of the update; \<open>0\<close> when no product has
  such a batch.\<close>

definition deduction_of :: "Product list \<Rightarrow> stock_update \<Rightarrow> stock_deduction" where
  "deduction_of ps u =
     \<lparr>sd_batchId = su_batchId u,
      sd_quantity =
        (case find (\<lambda>p. list_ex (\<lambda>b. b_id b = su_batchId u) (p_batches p)) ps of
           None \<Rightarrow> 0
         | Some p \<Rightarrow>
             (case find (\<lambda>b. b_id b = su_batchId u) (p_batches p) of
                None \<Rightarrow> 0
              | Some b \<Rightarrow> b_stock b - su_newStock u))\<rparr>"

text \<open>
  \<open>completeSale env resolved state cashier customerId\<close>.  \<open>resolved\<close> tells whether the
  promise of the adapter call resolves or rejects.  The result is \<open>None\<close> where the source
  throws a \<open>TypeError\<close>: in edit mode when the invoice being edited is not among the sale
  invoices (\<open>find(...)!.timestamp\<close>), and in create mode when a customer id is given that
  names no customer (\<open>customerUpdate!.transaction\<close> in the state update).
\<close>

definition completeSale :: "env \<Rightarrow> bool \<Rightarrow> AppState \<Rightarrow> string \<Rightarrow> string option \<Rightarrow> outcome option" where
  "completeSale ev resolved st cashier customerId =
     (if \<not> online ev then Some (failure st Offline)
      else if cart st = [] then Some (failure st CartEmpty)
      else
        (case cart_loop (cart st) (products st) [] [] of
           Inl msg \<Rightarrow> Some (failure st msg)
         | Inr (updatedProducts, stockUpdates, saleItemsWithPurchasePrice) \<Rightarrow>
             let editing = truthy (editingSaleInvoiceId st);
                 invoiceId = (case editingSaleInvoiceId st of
                                Some eid \<Rightarrow> if eid \<noteq> [] then eid
                                            else generateNextId ''F'' (map si_id (saleInvoices st))
                              | None \<Rightarrow> generateNextId ''F'' (map si_id (saleInvoices st)));
                 oldInvoice = find (\<lambda>i. si_id i = invoiceId) (saleInvoices st)
             in
             (case (if editing then map_option si_timestamp oldInvoice else Some (now ev)) of
                None \<Rightarrow> None
              | Some ts \<Rightarrow>
                  let finalInvoice =
                        \<lparr>si_id = invoiceId, si_type = Sale, si_originalInvoiceId = None,
                         si_items = saleItemsWithPurchasePrice,
                         si_subtotal = newSubtotal (cart st),
                         si_totalDiscount = newSubtotal (cart st) - newTotalAmount (cart st),
                         si_totalAmount = newTotalAmount (cart st),
                         si_timestamp = ts, si_cashier = cashier, si_customerId = customerId\<rparr>;
                      customerUpdate =
                        (case customerId of
                           None \<Rightarrow> None
                         | Some cid \<Rightarrow>
                             if cid = [] then None
                             else (case find (\<lambda>c. c_id c = cid) (customers st) of
                                     None \<Rightarrow> None
                                   | Some customer \<Rightarrow>
                                       Some \<lparr>cu_id = cid,
                                             cu_newBalance = c_balance customer + si_totalAmount finalInvoice,
                                             cu_transaction =
                                               \<lparr>ct_id = uuid ev 0, ct_customerId = cid,
                                                ct_type = credit_sale,
                                                ct_amount = si_totalAmount finalInvoice,
                                                ct_date = now ev,
                                                ct_description = SaleInvoiceNo (si_id finalInvoice),
                                                ct_invoiceId = Some (si_id finalInvoice)\<rparr>\<rparr>));
                      ret = \<lparr>success = True, invoice = Some finalInvoice, message = RegisteringInvoice\<rparr>
                  in
                  if editing then
                    (case oldInvoice of
                       None \<Rightarrow> None
                     | Some old \<Rightarrow>
                         let stockRestores =
                               map (\<lambda>i. \<lparr>sr_productId = item_id i, sr_quantity = item_quantity i\<rparr>)
                                 (filter is_product (si_items old));
                             custUpdateParams =
                               (case customerId of
                                  None \<Rightarrow> None
                                | Some cid \<Rightarrow>
                                    if cid = [] then None
                                    else if si_customerId old = customerId then
                                      Some \<lparr>cp_id = cid, cp_oldAmount = si_totalAmount old,
                                            cp_newAmount = si_totalAmount finalInvoice,
                                            cp_transactionDescription = SaleInvoiceEditedNo (si_id finalInvoice)\<rparr>
                                    else
                                      Some \<lparr>cp_id = cid, cp_oldAmount = 0,
                                            cp_newAmount = si_totalAmount finalInvoice,
                                            cp_transactionDescription = SaleInvoiceNo (si_id finalInvoice)\<rparr>);
                             request = UpdateSale invoiceId finalInvoice stockRestores
                                         (map (deduction_of (products st)) stockUpdates) custUpdateParams;
                             st1 = st\<lparr>editingSaleInvoiceId := None, cart := []\<rparr>;
                             entry = new_activity ev 1 act_sale (SaleEdited (si_id finalInvoice))
                                       cashier (Some (si_id finalInvoice)) (Some saleInvoice)
                         in
                         if resolved then
                           Some \<lparr>returned = ret, call = Some request, toasts = [InvoiceEdited],
                                 logged = Some entry, local_state = addActivityLocal entry st1,
                                 refetch = True\<rparr>
                         else
                           Some \<lparr>returned = ret, call = Some request, toasts = [],
                                 logged = None, local_state = st1, refetch = False\<rparr>)
                  else
                    (let request = CreateSale finalInvoice stockUpdates customerUpdate in
                     if resolved then
                       (if truthy customerId \<and> customerUpdate = None then None
                        else
                          let entry = new_activity ev 1 act_sale
                                        (SaleRegistered (si_id finalInvoice) (si_totalAmount finalInvoice))
                                        cashier (Some (si_id finalInvoice)) (Some saleInvoice);
                              st1 = addActivityLocal entry st
                          in
                          Some \<lparr>returned = ret, call = Some request, toasts = [InvoiceRegistered],
                                logged = Some entry,
                                local_state =
                                  st1\<lparr>saleInvoices := finalInvoice # saleInvoices st1,
                                      products := updatedProducts,
                                      customers :=
                                        (case customerId of
                                           None \<Rightarrow> customers st1
                                         | Some cid \<Rightarrow>
                                             if cid = [] then customers st1
                                             else map (\<lambda>c. if c_id c = cid
                                                             then c\<lparr>c_balance := c_balance c + si_totalAmount finalInvoice\<rparr>
                                                             else c) (customers st1)),
                                      customerTransactions :=
                                        (case customerUpdate of
                                           None \<Rightarrow> customerTransactions st1
                                         | Some cu \<Rightarrow> cu_transaction cu # customerTransactions st1),
                                      cart := []\<rparr>,
                                refetch = False\<rparr>)
                     else
                       Some \<lparr>returned = ret, call = Some request, toasts = [InvoiceServerError],
                             logged = None, local_state = st, refetch = False\<rparr>))))"

section \<open>Sale returns (addSaleReturn)\<close>

record return_item =
  ri_id :: string
  ri_type :: item_kind
  ri_quantity :: rat

fun item_kind_of :: "CartItem \<Rightarrow> item_kind" where
  "item_kind_of (ProductItem it) = product"
| "item_kind_of (ServiceItem s) = service"

text \<open>\<open>{ ...originalItem, quantity: ri.quantity }\<close>\<close>

fun with_quantity :: "rat \<Rightarrow> CartItem \<Rightarrow> CartItem" where
  "with_quantity q (ProductItem it) = ProductItem (it\<lparr>i_quantity := q\<rparr>)"
| "with_quantity q (ServiceItem s) = ServiceItem (s\<lparr>s_quantity := q\<rparr>)"

fun return_price :: "CartItem \<Rightarrow> rat" where
  "return_price (ProductItem it) = (case i_finalPrice it of Some f \<Rightarrow> f | None \<Rightarrow> p_salePrice it)"
| "return_price (ServiceItem s) = s_price s"

text \<open>The return lines with the details of the original lines; a return line that matches
  no line of the original invoice is dropped (\<open>filter(Boolean)\<close>).\<close>

definition detailedReturnItems :: "SaleInvoice \<Rightarrow> return_item list \<Rightarrow> CartItem list" where
  "detailedReturnItems originalInvoice returnItems =
     List.map_filter
       (\<lambda>ri. map_option (with_quantity (ri_quantity ri))
               (find (\<lambda>i. item_id i = ri_id ri \<and> item_kind_of i = ri_type ri)
                  (si_items originalInvoice)))
       returnItems"

definition addSaleReturn :: "env \<Rightarrow> bool \<Rightarrow> AppState \<Rightarrow> string \<Rightarrow> return_item list \<Rightarrow> string
    \<Rightarrow> outcome" where
  "addSaleReturn ev resolved st originalInvoiceId returnItems cashier =
     (if \<not> online ev then failure st Offline
      else
        (case find (\<lambda>i. si_id i = originalInvoiceId) (saleInvoices st) of
           None \<Rightarrow> failure st OriginalInvoiceNotFound
         | Some originalInvoice \<Rightarrow>
             let items = detailedReturnItems originalInvoice returnItems;
                 returnTotal = foldl (\<lambda>total i. total + return_price i * item_quantity i) 0 items;
                 returnInvoice =
                   \<lparr>si_id = generateNextId ''R'' (map si_id (saleInvoices st)),
                    si_type = Return, si_originalInvoiceId = Some originalInvoiceId,
                    si_items = items, si_subtotal = returnTotal, si_totalDiscount = 0,
                    si_totalAmount = returnTotal, si_timestamp = now ev, si_cashier = cashier,
                    si_customerId = si_customerId originalInvoice\<rparr>;
                 stockRestores =
                   map (\<lambda>i. \<lparr>sr_productId = item_id i, sr_quantity = item_quantity i\<rparr>)
                     (filter is_product items);
                 customerRefund =
                   (case si_customerId originalInvoice of
                      None \<Rightarrow> None
                    | Some cid \<Rightarrow> if cid = [] then None
                                  else Some \<lparr>pa_id = cid, pa_amount = returnTotal\<rparr>);
                 request = CreateSaleReturn returnInvoice stockRestores customerRefund;
                 ret = \<lparr>success = True, invoice = None, message = RegisteringReturn\<rparr>;
                 entry = new_activity ev 1 act_sale (SaleReturnRegistered originalInvoiceId)
                           cashier (Some (si_id returnInvoice)) (Some saleInvoice)
             in
             if resolved then
               \<lparr>returned = ret, call = Some request, toasts = [ReturnRegistered],
                logged = Some entry, local_state = addActivityLocal entry st, refetch = True\<rparr>
             else
               \<lparr>returned = ret, call = Some request, toasts = [ReturnError],
                logged = None, local_state = st, refetch = False\<rparr>))"

section \<open>Purchases (addPurchaseInvoice, addPurchaseReturn)\<close>

record purchase_input_item =
  ii_productId :: string
  ii_quantity :: rat
  ii_purchasePrice :: rat
  ii_lotNumber :: string
  ii_expiryDate :: "date option"

text \<open>The argument of \<open>addPurchaseInvoice\<close>.  The exchange rate is given as a number
  (\<open>Number(invoiceData.exchangeRate)\<close> of the form's rate).\<close>

record purchase_input =
  in_supplierId :: string
  in_invoiceNumber :: string
  in_items :: "purchase_input_item list"
  in_timestamp :: date
  in_currency :: "currency option"
  in_exchangeRate :: rat

text \<open>The name shown for a product that is not found (the source's Persian word for
  "unknown").\<close>

definition unknown_name :: string where
  "unknown_name = ''?''"

text \<open>\<open>Math.round\<close>\<close>

definition js_round :: "rat \<Rightarrow> int" where
  "js_round x = \<lfloor>x + 1 / 2\<rfloor>"

text \<open>\<open>p.batches.push(newBatch)\<close> on the first product with the id, if any.\<close>

definition push_batch :: "Product list \<Rightarrow> new_batch \<Rightarrow> Product list" where
  "push_batch ps nb =
     (case findIndex (\<lambda>p. p_id p = nb_productId nb) ps of
        None \<Rightarrow> ps
      | Some k \<Rightarrow> ps[k := (ps ! k)\<lparr>p_batches := p_batches (ps ! k) @ [nb_batch nb]\<rparr>])"

definition addPurchaseInvoice :: "env \<Rightarrow> bool \<Rightarrow> AppState \<Rightarrow> purchase_input \<Rightarrow> outcome" where
  "addPurchaseInvoice ev resolved st invoiceData =
     (if \<not> online ev then failure st Offline
      else
        (case find (\<lambda>s. sup_id s = in_supplierId invoiceData) (suppliers st) of
           None \<Rightarrow> failure st InvalidSupplier
         | Some supplier \<Rightarrow>
             let invoiceId = generateNextId ''P'' (map pu_id (purchaseInvoices st));
                 isUSD = (in_currency invoiceData = Some USD);
                 rate = (if isUSD then in_exchangeRate invoiceData else 1);
                 finalItems =
                   map (\<lambda>item.
                          \<lparr>pi_productId = ii_productId item,
                           pi_productName =
                             (case find (\<lambda>p. p_id p = ii_productId item) (products st) of
                                None \<Rightarrow> unknown_name
                              | Some p \<Rightarrow> if p_name p = [] then unknown_name else p_name p),
                           pi_quantity = ii_quantity item,
                           pi_purchasePrice = ii_purchasePrice item * rate,
                           pi_lotNumber = ii_lotNumber item,
                           pi_expiryDate = ii_expiryDate item\<rparr>)
                     (in_items invoiceData);
                 totalAmount =
                   foldl (\<lambda>total item. total + pi_purchasePrice item * pi_quantity item) 0 finalItems;
                 finalInvoiceNumber =
                   (if in_invoiceNumber invoiceData \<noteq> [] then in_invoiceNumber invoiceData
                    else invoiceId);
                 invc =
                   \<lparr>pu_id = invoiceId, pu_type = Purchase, pu_originalInvoiceId = None,
                    pu_supplierId = in_supplierId invoiceData,
                    pu_invoiceNumber = finalInvoiceNumber, pu_items = finalItems,
                    pu_totalAmount = totalAmount, pu_timestamp = in_timestamp invoiceData,
                    pu_currency = in_currency invoiceData, pu_exchangeRate = Some rate\<rparr>;
                 newBatches =
                   map (\<lambda>(n, item).
                          \<lparr>nb_productId = pi_productId item,
                           nb_batch =
                             \<lparr>b_id = uuid ev n, b_lotNumber = pi_lotNumber item,
                              b_stock = pi_quantity item,
                              b_purchasePrice = pi_purchasePrice item,
                              b_purchaseDate = pu_timestamp invc,
                              b_expiryDate = pi_expiryDate item\<rparr>\<rparr>)
                     (enumerate 0 finalItems);
                 localProducts = foldl push_batch (products st) newBatches;
                 supplierUpdate =
                   \<lparr>spu_id = sup_id supplier,
                    spu_newBalance = sup_balance supplier + pu_totalAmount invc,
                    spu_transaction =
                      \<lparr>st_id = uuid ev (length finalItems), st_supplierId = sup_id supplier,
                       st_type = purchase,
                       st_amount = (if isUSD then js_div (pu_totalAmount invc) rate
                                    else Some (pu_totalAmount invc)),
                       st_date = pu_timestamp invc,
                       st_description =
                         PurchaseInvoiceNo (pu_invoiceNumber invc)
                           (if isUSD then map_option js_round (js_div (pu_totalAmount invc) rate)
                            else None),
                       st_invoiceId = Some (pu_id invc),
                       st_currency = in_currency invoiceData\<rparr>\<rparr>;
                 request = CreatePurchase invc supplierUpdate newBatches;
                 ret = \<lparr>success = True, invoice = None, message = Registering\<rparr>;
                 entry = new_activity ev (Suc (length finalItems)) act_purchase PurchaseRegistered
                           (user ev) (Some (pu_id invc)) (Some purchaseInvoice);
                 st1 = addActivityLocal entry st
             in
             if resolved then
               \<lparr>returned = ret, call = Some request, toasts = [PurchaseInvoiceRegistered],
                logged = Some entry,
                local_state =
                  st1\<lparr>products := localProducts,
                      purchaseInvoices := invc # purchaseInvoices st1,
                      suppliers :=
                        map (\<lambda>s. if sup_id s = sup_id supplier
                                  then s\<lparr>sup_balance := sup_balance s + pu_totalAmount invc\<rparr>
                                  else s) (suppliers st1),
                      supplierTransactions :=
                        spu_transaction supplierUpdate # supplierTransactions st1\<rparr>,
                refetch = False\<rparr>
             else
               \<lparr>returned = ret, call = Some request, toasts = [PurchaseInvoiceError],
                logged = None, local_state = st, refetch = False\<rparr>))"

record purchase_return_item =
  pri_productId :: string
  pri_quantity :: rat

text \<open>The return lines that name a product of the original invoice, each with the line of
  the original invoice.\<close>

definition matched_returns :: "PurchaseInvoice \<Rightarrow> purchase_return_item list
    \<Rightarrow> (purchase_return_item \<times> PurchaseInvoiceItem) list" where
  "matched_returns originalInvoice returnItems =
     List.map_filter
       (\<lambda>ri. map_option (\<lambda>originalItem. (ri, originalItem))
               (find (\<lambda>i. pi_productId i = pri_productId ri) (pu_items originalInvoice)))
       returnItems"

definition addPurchaseReturn :: "env \<Rightarrow> bool \<Rightarrow> AppState \<Rightarrow> string \<Rightarrow> purchase_return_item list
    \<Rightarrow> outcome" where
  "addPurchaseReturn ev resolved st originalInvoiceId returnItems =
     (if \<not> online ev then failure st Offline
      else
        (case find (\<lambda>i. pu_id i = originalInvoiceId) (purchaseInvoices st) of
           None \<Rightarrow> failure st InvoiceNotFound
         | Some originalInvoice \<Rightarrow>
             let matched = matched_returns originalInvoice returnItems;
                 returnTotal =
                   foldl (\<lambda>total (ri, originalItem).
                            total + pi_purchasePrice originalItem * pri_quantity ri) 0 matched;
                 fullReturnItems =
                   map (\<lambda>(ri, originalItem). originalItem\<lparr>pi_quantity := pri_quantity ri\<rparr>) matched;
                 stockDeductions =
                   map (\<lambda>(ri, originalItem).
                          \<lparr>ld_productId = pri_productId ri, ld_quantity = pri_quantity ri,
                           ld_lotNumber = pi_lotNumber originalItem\<rparr>) matched;
                 returnInvoice =
                   \<lparr>pu_id = generateNextId ''PR'' (map pu_id (purchaseInvoices st)),
                    pu_type = PurchaseReturn, pu_originalInvoiceId = Some originalInvoiceId,
                    pu_supplierId = pu_supplierId originalInvoice,
                    pu_invoiceNumber = pu_invoiceNumber originalInvoice,
                    pu_items = fullReturnItems, pu_totalAmount = returnTotal,
                    pu_timestamp = now ev, pu_currency = None, pu_exchangeRate = None\<rparr>;
                 supplierRefund = \<lparr>pa_id = pu_supplierId originalInvoice, pa_amount = returnTotal\<rparr>;
                 request = CreatePurchaseReturn returnInvoice stockDeductions supplierRefund;
                 ret = \<lparr>success = True, invoice = None, message = Registering\<rparr>;
                 entry = new_activity ev 1 act_purchase PurchaseReturnRegistered
                           (user ev) (Some (pu_id returnInvoice)) (Some purchaseInvoice)
             in
             if resolved then
               \<lparr>returned = ret, call = Some request, toasts = [PurchaseReturnDone],
                logged = Some entry, local_state = addActivityLocal entry st, refetch = True\<rparr>
             else
               \<lparr>returned = ret, call = Some request, toasts = [],
                logged = None, local_state = st, refetch = False\<rparr>))"

section \<open>Payroll (processAndPaySalaries)\<close>

definition netSalary :: "Employee \<Rightarrow> rat" where
  "netSalary emp = e_monthlySalary emp - e_balance emp"

definition processAndPaySalaries :: "env \<Rightarrow> bool \<Rightarrow> AppState \<Rightarrow> outcome" where
  "processAndPaySalaries ev resolved st =
     (if \<not> online ev then failure st Offline
      else
        let payable = filter (\<lambda>emp. netSalary emp > 0) (employees st);
            newTransactions =
              map (\<lambda>(n, emp).
                     \<lparr>pt_id = uuid ev n, pt_employeeId = e_id emp, pt_type = salary_payment,
                      pt_amount = netSalary emp, pt_date = now ev, pt_description = MonthlySalary\<rparr>)
                (enumerate 0 payable);
            totalPaid = foldl (\<lambda>total emp. total + netSalary emp) 0 payable;
            employeeUpdates = map e_id (employees st)
        in
        if totalPaid = 0 then failure st NoSalaryToPay
        else
          let expense =
                \<lparr>x_id = uuid ev (length payable), x_category = salary,
                 x_description = MonthlySalary, x_amount = totalPaid, x_date = now ev\<rparr>;
              request = ProcessPayroll employeeUpdates newTransactions expense;
              ret = \<lparr>success = True, invoice = None, message = Processing\<rparr>;
              entry = new_activity ev (Suc (length payable)) act_payroll (SalariesPaid totalPaid)
                        (user ev) None None;
              st1 = addActivityLocal entry st
          in
          if resolved then
            \<lparr>returned = ret, call = Some request, toasts = [SalariesWerePaid],
             logged = Some entry,
             local_state =
               st1\<lparr>employees := map (\<lambda>e. e\<lparr>e_balance := 0\<rparr>) (employees st1),
                   payrollTransactions := newTransactions @ payrollTransactions st1,
                   expenses := expense # expenses st1\<rparr>,
             refetch = False\<rparr>
          else
            \<lparr>returned = ret, call = Some request, toasts = [],
             logged = None, local_state = st, refetch = False\<rparr>)"

section \<open>The remote store and the adapter (services/supabaseService.ts)\<close>

text \<open>
  The store is a record of tables, each a list of rows in the order of insertion.  A
  select without \<open>order\<close> returns the rows in table order, \<open>limit(1)\<close> the first of them,
  and \<open>single()\<close> a row only when exactly one matches.  An insert appends; an update
  rewrites every matching row in place.  Store calls succeed, except that the calls whose
  error the adapter checks and throws may fail: \<open>fails_at = Some n\<close> makes the \<open>n\<close>-th
  checked call of an adapter function fail.  An adapter function returns the new store
  and whether its promise resolved.
\<close>

record batch_row =
  br_product_id :: string
  br_batch :: ProductBatch

record product_row =
  pr_id :: string
  pr_name :: string
  pr_sale_price :: rat
  pr_barcode :: "string option"
  pr_manufacturer :: "string option"
  pr_items_per_package :: "rat option"

record sale_invoice_row =
  sir_id :: string
  sir_type :: invoice_kind
  sir_original_invoice_id :: "string option"
  sir_subtotal :: rat
  sir_total_discount :: rat
  sir_total_amount :: rat
  sir_timestamp :: date
  sir_cashier :: string
  sir_customer_id :: "string option"

record sale_item_row =
  ir_invoice_id :: string
  ir_item_id :: string
  ir_type :: item_kind
  ir_name :: string
  ir_quantity :: rat
  ir_price :: rat
  ir_final_price :: "rat option"
  ir_purchase_price :: "rat option"

record purchase_invoice_row =
  pur_id :: string
  pur_type :: purchase_kind
  pur_original_invoice_id :: "string option"
  pur_supplier_id :: string
  pur_invoice_number :: string
  pur_total_amount :: rat
  pur_timestamp :: date
  pur_currency :: "currency option"
  pur_exchange_rate :: "rat option"

record purchase_item_row =
  pir_invoice_id :: string
  pir_item :: PurchaseInvoiceItem

record db =
  t_products :: "product_row list"
  t_product_batches :: "batch_row list"
  t_sale_invoices :: "sale_invoice_row list"
  t_sale_invoice_items :: "sale_item_row list"
  t_purchase_invoices :: "purchase_invoice_row list"
  t_purchase_invoice_items :: "purchase_item_row list"
  t_customers :: "Customer list"
  t_suppliers :: "Supplier list"
  t_employees :: "Employee list"
  t_expenses :: "Expense list"
  t_customer_transactions :: "CustomerTransaction list"
  t_supplier_transactions :: "SupplierTransaction list"
  t_payroll_transactions :: "PayrollTransaction list"
  t_activity_logs :: "ActivityLog list"

text \<open>\<open>single()\<close>: the row, when exactly one row matches.\<close>

definition single_row :: "('a \<Rightarrow> bool) \<Rightarrow> 'a list \<Rightarrow> 'a option" where
  "single_row P rows = (case filter P rows of [r] \<Rightarrow> Some r | _ \<Rightarrow> None)"

text \<open>\<open>update(...).eq(...)\<close>: rewrite every matching row.\<close>

definition update_where :: "('a \<Rightarrow> bool) \<Rightarrow> ('a \<Rightarrow> 'a) \<Rightarrow> 'a list \<Rightarrow> 'a list" where
  "update_where P f rows = map (\<lambda>r. if P r then f r else r) rows"

definition set_stock :: "rat \<Rightarrow> batch_row \<Rightarrow> batch_row" where
  "set_stock s r = r\<lparr>br_batch := (br_batch r)\<lparr>b_stock := s\<rparr>\<rparr>"

text \<open>The item rows that \<open>createSale\<close>, \<open>updateSale\<close> and \<open>clearAndRestoreData\<close> write for the
  lines of a sale invoice.\<close>

fun item_row_of :: "string \<Rightarrow> CartItem \<Rightarrow> sale_item_row" where
  "item_row_of invoice_id (ProductItem it) =
     \<lparr>ir_invoice_id = invoice_id, ir_item_id = p_id it, ir_type = product, ir_name = p_name it,
      ir_quantity = i_quantity it, ir_price = p_salePrice it,
      ir_final_price = (case i_finalPrice it of Some f \<Rightarrow> Some f | None \<Rightarrow> Some (p_salePrice it)),
      ir_purchase_price = i_purchasePrice it\<rparr>"
| "item_row_of invoice_id (ServiceItem s) =
     \<lparr>ir_invoice_id = invoice_id, ir_item_id = s_id s, ir_type = service, ir_name = s_name s,
      ir_quantity = s_quantity s, ir_price = s_price s,
      ir_final_price = s_salePrice s,
      ir_purchase_price = Some 0\<rparr>"

definition invoice_row_of :: "SaleInvoice \<Rightarrow> sale_invoice_row" where
  "invoice_row_of i =
     \<lparr>sir_id = si_id i, sir_type = si_type i, sir_original_invoice_id = si_originalInvoiceId i,
      sir_subtotal = si_subtotal i, sir_total_discount = si_totalDiscount i,
      sir_total_amount = si_totalAmount i, sir_timestamp = si_timestamp i,
      sir_cashier = si_cashier i, sir_customer_id = si_customerId i\<rparr>"

subsection \<open>createSale\<close>

definition apply_stock_updates :: "stock_update list \<Rightarrow> batch_row list \<Rightarrow> batch_row list" where
  "apply_stock_updates sus rows =
     foldl (\<lambda>rows u. update_where (\<lambda>r. b_id (br_batch r) = su_batchId u)
                        (set_stock (su_newStock u)) rows) rows sus"

definition api_createSale :: "nat option \<Rightarrow> SaleInvoice \<Rightarrow> stock_update list
    \<Rightarrow> customer_update option \<Rightarrow> db \<Rightarrow> db \<times> bool" where
  "api_createSale fails_at invc stockUpdates customerUpdate d =
     (if fails_at = Some 0 then (d, False)
      else
        let d1 = d\<lparr>t_sale_invoices := t_sale_invoices d @ [invoice_row_of invc]\<rparr> in
        if fails_at = Some 1 then (d1, False)
        else
          let d2 = d1\<lparr>t_sale_invoice_items :=
                        t_sale_invoice_items d1 @ map (item_row_of (si_id invc)) (si_items invc)\<rparr>;
              d3 = d2\<lparr>t_product_batches := apply_stock_updates stockUpdates (t_product_batches d2)\<rparr>
          in
          (case customerUpdate of
             None \<Rightarrow> (d3, True)
           | Some cu \<Rightarrow>
               (d3\<lparr>t_customers :=
                      update_where (\<lambda>c. c_id c = cu_id cu) (\<lambda>c. c\<lparr>c_balance := cu_newBalance cu\<rparr>)
                        (t_customers d3),
                    t_customer_transactions := t_customer_transactions d3 @ [cu_transaction cu]\<rparr>,
                True)))"

subsection \<open>updateSale\<close>

text \<open>Restoring a quantity: to the first batch row found for the product.\<close>

definition restore_stock :: "batch_row list \<Rightarrow> stock_restore \<Rightarrow> batch_row list" where
  "restore_stock rows restore =
     (case find (\<lambda>r. br_product_id r = sr_productId restore) rows of
        None \<Rightarrow> rows
      | Some batch \<Rightarrow>
          update_where (\<lambda>r. b_id (br_batch r) = b_id (br_batch batch))
            (set_stock (b_stock (br_batch batch) + sr_quantity restore)) rows)"

definition deduct_stock :: "batch_row list \<Rightarrow> stock_deduction \<Rightarrow> batch_row list" where
  "deduct_stock rows dd =
     (case single_row (\<lambda>r. b_id (br_batch r) = sd_batchId dd) rows of
        None \<Rightarrow> rows
      | Some batch \<Rightarrow>
          update_where (\<lambda>r. b_id (br_batch r) = sd_batchId dd)
            (set_stock (b_stock (br_batch batch) - sd_quantity dd)) rows)"

definition api_updateSale :: "nat option \<Rightarrow> string \<Rightarrow> SaleInvoice \<Rightarrow> stock_restore list
    \<Rightarrow> stock_deduction list \<Rightarrow> cust_update_params option \<Rightarrow> db \<Rightarrow> db \<times> bool" where
  "api_updateSale fails_at invoiceId newInvoiceData stockRestores stockDeductions customerUpdate d =
     (let d1 = d\<lparr>t_product_batches := foldl restore_stock (t_product_batches d) stockRestores\<rparr>;
          d2 = d1\<lparr>t_product_batches := foldl deduct_stock (t_product_batches d1) stockDeductions\<rparr>
      in
      if fails_at = Some 0 then (d2, False)
      else
        let d3 = d2\<lparr>t_sale_invoices :=
                      update_where (\<lambda>r. sir_id r = invoiceId)
                        (\<lambda>r. r\<lparr>sir_subtotal := si_subtotal newInvoiceData,
                               sir_total_discount := si_totalDiscount newInvoiceData,
                               sir_total_amount := si_totalAmount newInvoiceData,
                               sir_customer_id :=
                                 (case si_customerId newInvoiceData of
                                    None \<Rightarrow> sir_customer_id r
                                  | Some cid \<Rightarrow> Some cid)\<rparr>)
                        (t_sale_invoices d2)\<rparr>;
            d4 = d3\<lparr>t_sale_invoice_items :=
                      filter (\<lambda>r. ir_invoice_id r \<noteq> invoiceId) (t_sale_invoice_items d3)
                      @ map (item_row_of invoiceId) (si_items newInvoiceData)\<rparr>
        in
        (case customerUpdate of
           None \<Rightarrow> (d4, True)
         | Some cu \<Rightarrow>
             (case single_row (\<lambda>c. c_id c = cp_id cu) (t_customers d4) of
                None \<Rightarrow> (d4, True)
              | Some customer \<Rightarrow>
                  (d4\<lparr>t_customers :=
                         update_where (\<lambda>c. c_id c = cp_id cu)
                           (\<lambda>c. c\<lparr>c_balance := c_balance customer - cp_oldAmount cu + cp_newAmount cu\<rparr>)
                           (t_customers d4),
                       t_customer_transactions :=
                         update_where (\<lambda>t. ct_invoiceId t = Some invoiceId \<and> ct_type t = credit_sale)
                           (\<lambda>t. t\<lparr>ct_amount := cp_newAmount cu,
                                  ct_description := cp_transactionDescription cu\<rparr>)
                           (t_customer_transactions d4)\<rparr>,
                   True))))"

subsection \<open>createSaleReturn\<close>

definition api_createSaleReturn :: "env \<Rightarrow> nat option \<Rightarrow> SaleInvoice \<Rightarrow> stock_restore list
    \<Rightarrow> party_amount option \<Rightarrow> db \<Rightarrow> db \<times> bool" where
  "api_createSaleReturn ev fails_at returnInvoice stockRestores customerRefund d =
     (if fails_at = Some 0 then (d, False)
      else
        let d1 = d\<lparr>t_sale_invoices :=
                     t_sale_invoices d @ [(invoice_row_of returnInvoice)\<lparr>sir_type := Return\<rparr>]\<rparr>;
            d2 = d1\<lparr>t_sale_invoice_items :=
                      t_sale_invoice_items d1 @
                      map (\<lambda>item. (item_row_of (si_id returnInvoice) item)\<lparr>ir_final_price := Some 0\<rparr>)
                        (si_items returnInvoice)\<rparr>;
            d3 = d2\<lparr>t_product_batches := foldl restore_stock (t_product_batches d2) stockRestores\<rparr>
        in
        (case customerRefund of
           None \<Rightarrow> (d3, True)
         | Some refund \<Rightarrow>
             (case single_row (\<lambda>c. c_id c = pa_id refund) (t_customers d3) of
                None \<Rightarrow> (d3, True)
              | Some customer \<Rightarrow>
                  (d3\<lparr>t_customers :=
                         update_where (\<lambda>c. c_id c = pa_id refund)
                           (\<lambda>c. c\<lparr>c_balance := c_balance customer - pa_amount refund\<rparr>)
                           (t_customers d3),
                       t_customer_transactions :=
                         t_customer_transactions d3 @
                         [\<lparr>ct_id = uuid ev 0, ct_customerId = pa_id refund, ct_type = sale_return,
                           ct_amount = pa_amount refund, ct_date = now ev,
                           ct_description = SaleReturnOf (si_originalInvoiceId returnInvoice),
                           ct_invoiceId = Some (si_id returnInvoice)\<rparr>]\<rparr>,
                   True))))"

subsection \<open>createPurchase and createPurchaseReturn\<close>

definition purchase_row_of :: "PurchaseInvoice \<Rightarrow> purchase_invoice_row" where
  "purchase_row_of i =
     \<lparr>pur_id = pu_id i, pur_type = pu_type i, pur_original_invoice_id = pu_originalInvoiceId i,
      pur_supplier_id = pu_supplierId i, pur_invoice_number = pu_invoiceNumber i,
      pur_total_amount = pu_totalAmount i, pur_timestamp = pu_timestamp i,
      pur_currency = pu_currency i, pur_exchange_rate = pu_exchangeRate i\<rparr>"

definition purchase_item_rows :: "PurchaseInvoice \<Rightarrow> purchase_item_row list" where
  "purchase_item_rows i = map (\<lambda>item. \<lparr>pir_invoice_id = pu_id i, pir_item = item\<rparr>) (pu_items i)"

definition api_createPurchase :: "nat option \<Rightarrow> PurchaseInvoice \<Rightarrow> supplier_update
    \<Rightarrow> new_batch list \<Rightarrow> db \<Rightarrow> db \<times> bool" where
  "api_createPurchase fails_at invc supplierUpdate newBatches d =
     (if fails_at = Some 0 then (d, False)
      else
        let d1 = d\<lparr>t_purchase_invoices := t_purchase_invoices d @ [purchase_row_of invc]\<rparr> in
        if fails_at = Some 1 then (d1, False)
        else
          let d2 = d1\<lparr>t_purchase_invoice_items :=
                        t_purchase_invoice_items d1 @ purchase_item_rows invc\<rparr>;
              d3 = d2\<lparr>t_product_batches :=
                        t_product_batches d2 @
                        map (\<lambda>b. \<lparr>br_product_id = nb_productId b, br_batch = nb_batch b\<rparr>) newBatches\<rparr>
          in
          (d3\<lparr>t_suppliers :=
                 update_where (\<lambda>s. sup_id s = spu_id supplierUpdate)
                   (\<lambda>s. s\<lparr>sup_balance := spu_newBalance supplierUpdate\<rparr>) (t_suppliers d3),
               t_supplier_transactions :=
                 t_supplier_transactions d3 @ [spu_transaction supplierUpdate]\<rparr>,
           True))"

text \<open>Reducing the stock of a returned purchase: the first batch row of the product with
  the lot number, never below 0.\<close>

definition return_stock :: "batch_row list \<Rightarrow> lot_deduction \<Rightarrow> batch_row list" where
  "return_stock rows dd =
     (case find (\<lambda>r. br_product_id r = ld_productId dd \<and>
                      b_lotNumber (br_batch r) = ld_lotNumber dd) rows of
        None \<Rightarrow> rows
      | Some batch \<Rightarrow>
          update_where (\<lambda>r. b_id (br_batch r) = b_id (br_batch batch))
            (set_stock (max 0 (b_stock (br_batch batch) - ld_quantity dd))) rows)"

definition api_createPurchaseReturn :: "env \<Rightarrow> PurchaseInvoice \<Rightarrow> lot_deduction list
    \<Rightarrow> party_amount \<Rightarrow> db \<Rightarrow> db \<times> bool" where
  "api_createPurchaseReturn ev returnInvoice stockDeductions supplierRefund d =
     (let d1 = d\<lparr>t_purchase_invoices :=
                   t_purchase_invoices d @
                   [(purchase_row_of returnInvoice)\<lparr>pur_type := PurchaseReturn, pur_currency := None,
                                                     pur_exchange_rate := None\<rparr>]\<rparr>;
          d2 = d1\<lparr>t_purchase_invoice_items :=
                    t_purchase_invoice_items d1 @ purchase_item_rows returnInvoice\<rparr>;
          d3 = d2\<lparr>t_product_batches := foldl return_stock (t_product_batches d2) stockDeductions\<rparr>
      in
      (case single_row (\<lambda>s. sup_id s = pa_id supplierRefund) (t_suppliers d3) of
         None \<Rightarrow> (d3, True)
       | Some supplier \<Rightarrow>
           (d3\<lparr>t_suppliers :=
                  update_where (\<lambda>s. sup_id s = pa_id supplierRefund)
                    (\<lambda>s. s\<lparr>sup_balance := sup_balance supplier - pa_amount supplierRefund\<rparr>)
                    (t_suppliers d3),
                t_supplier_transactions :=
                  t_supplier_transactions d3 @
                  [\<lparr>st_id = uuid ev 0, st_supplierId = pa_id supplierRefund, st_type = purchase_return,
                    st_amount = Some (pa_amount supplierRefund), st_date = now ev,
                    st_description = PurchaseReturnOf (pu_originalInvoiceId returnInvoice),
                    st_invoiceId = Some (pu_id returnInvoice), st_currency = None\<rparr>]\<rparr>,
            True)))"

subsection \<open>processPayroll and addActivity\<close>

definition api_processPayroll :: "string list \<Rightarrow> PayrollTransaction list \<Rightarrow> Expense \<Rightarrow> db
    \<Rightarrow> db \<times> bool" where
  "api_processPayroll updates transactions expense d =
     (d\<lparr>t_employees :=
          foldl (\<lambda>rows u. update_where (\<lambda>e. e_id e = u) (\<lambda>e. e\<lparr>e_balance := 0\<rparr>) rows)
            (t_employees d) updates,
        t_payroll_transactions := t_payroll_transactions d @ transactions,
        t_expenses := t_expenses d @ [expense]\<rparr>,
      True)"

definition api_addActivity :: "ActivityLog \<Rightarrow> db \<Rightarrow> db" where
  "api_addActivity entry d = d\<lparr>t_activity_logs := t_activity_logs d @ [entry]\<rparr>"

text \<open>The adapter call of an action, run against the store.\<close>

fun run_call :: "env \<Rightarrow> nat option \<Rightarrow> api_call \<Rightarrow> db \<Rightarrow> db \<times> bool" where
  "run_call ev fails_at (CreateSale invc sus cu) d = api_createSale fails_at invc sus cu d"
| "run_call ev fails_at (UpdateSale i invc rs ds cp) d = api_updateSale fails_at i invc rs ds cp d"
| "run_call ev fails_at (CreateSaleReturn invc rs refund) d = api_createSaleReturn ev fails_at invc rs refund d"
| "run_call ev fails_at (CreatePurchase invc su nbs) d = api_createPurchase fails_at invc su nbs d"
| "run_call ev fails_at (CreatePurchaseReturn invc ds refund) d = api_createPurchaseReturn ev invc ds refund d"
| "run_call ev fails_at (ProcessPayroll us txs expense) d = api_processPayroll us txs expense d"

subsection \<open>Reading the store (fetchData)\<close>

text \<open>\<open>Number(x)\<close> of a column: \<open>null\<close> reads as 0.\<close>

definition number_of :: "rat option \<Rightarrow> rat" where
  "number_of x = (case x of None \<Rightarrow> 0 | Some v \<Rightarrow> v)"

text \<open>\<open>Number(x) || 1\<close>\<close>

definition number_or_1 :: "rat option \<Rightarrow> rat" where
  "number_or_1 x = (case x of None \<Rightarrow> 1 | Some v \<Rightarrow> if v = 0 then 1 else v)"

definition mapProduct :: "batch_row list \<Rightarrow> product_row \<Rightarrow> Product" where
  "mapProduct batch_rows r =
     \<lparr>p_id = pr_id r, p_name = pr_name r, p_salePrice = pr_sale_price r,
      p_batches = map br_batch (filter (\<lambda>b. br_product_id b = pr_id r) batch_rows),
      p_barcode = pr_barcode r, p_manufacturer = pr_manufacturer r,
      p_itemsPerPackage = Some (number_or_1 (pr_items_per_package r))\<rparr>"

text \<open>A line of a sale invoice as \<open>mapSaleInvoice\<close> reads it from its row, with the
  \<open>itemsPerPackage\<close> that \<open>fetchData\<close> then takes from the product of that id (1 when there
  is none).  The row holds no batches, barcode or manufacturer.\<close>

definition item_of_row :: "Product list \<Rightarrow> sale_item_row \<Rightarrow> CartItem" where
  "item_of_row ps r =
     (case ir_type r of
        product \<Rightarrow>
          ProductItem
            \<lparr>p_id = ir_item_id r, p_name = ir_name r, p_salePrice = ir_price r, p_batches = [],
             p_barcode = None, p_manufacturer = None,
             p_itemsPerPackage =
               Some (case find (\<lambda>p. p_id p = ir_item_id r) ps of
                       None \<Rightarrow> 1
                     | Some p \<Rightarrow> number_or_1 (p_itemsPerPackage p)),
             i_quantity = ir_quantity r,
             i_purchasePrice = Some (number_of (ir_purchase_price r)),
             i_finalPrice = Some (number_of (ir_final_price r))\<rparr>
      | service \<Rightarrow>
          ServiceItem
            \<lparr>s_id = ir_item_id r, s_name = ir_name r, s_price = ir_price r,
             s_quantity = ir_quantity r, s_salePrice = Some (ir_price r)\<rparr>)"

definition mapSaleInvoice :: "Product list \<Rightarrow> sale_item_row list \<Rightarrow> sale_invoice_row \<Rightarrow> SaleInvoice" where
  "mapSaleInvoice ps item_rows r =
     \<lparr>si_id = sir_id r, si_type = sir_type r, si_originalInvoiceId = sir_original_invoice_id r,
      si_items = map (item_of_row ps) (filter (\<lambda>i. ir_invoice_id i = sir_id r) item_rows),
      si_subtotal = sir_subtotal r, si_totalDiscount = sir_total_discount r,
      si_totalAmount = sir_total_amount r, si_timestamp = sir_timestamp r,
      si_cashier = sir_cashier r, si_customerId = sir_customer_id r\<rparr>"

definition mapPurchaseInvoice :: "purchase_item_row list \<Rightarrow> purchase_invoice_row \<Rightarrow> PurchaseInvoice" where
  "mapPurchaseInvoice item_rows r =
     \<lparr>pu_id = pur_id r, pu_type = pur_type r, pu_originalInvoiceId = pur_original_invoice_id r,
      pu_supplierId = pur_supplier_id r, pu_invoiceNumber = pur_invoice_number r,
      pu_items = map pir_item (filter (\<lambda>i. pir_invoice_id i = pur_id r) item_rows),
      pu_totalAmount = pur_total_amount r, pu_timestamp = pur_timestamp r,
      pu_currency = Some (case pur_currency r of None \<Rightarrow> AFN | Some c \<Rightarrow> c),
      pu_exchangeRate = Some (number_or_1 (pur_exchange_rate r))\<rparr>"

definition mapSupplierTransaction :: "SupplierTransaction \<Rightarrow> SupplierTransaction" where
  "mapSupplierTransaction t =
     t\<lparr>st_amount := Some (number_of (st_amount t)),
       st_currency := Some (case st_currency t of None \<Rightarrow> AFN | Some c \<Rightarrow> c)\<rparr>"

text \<open>\<open>order('timestamp', { ascending: false })\<close>: descending by timestamp, rows of equal
  timestamp in table order.\<close>

definition newest_first :: "('a \<Rightarrow> date) \<Rightarrow> 'a list \<Rightarrow> 'a list" where
  "newest_first ts rows = sort_key (\<lambda>r. - ts r) rows"

text \<open>The local state after \<open>fetchData\<close>: every mirrored field is replaced by what the store
  holds; the cart and the editing markers stay.\<close>

definition fetchData :: "db \<Rightarrow> AppState \<Rightarrow> AppState" where
  "fetchData d prev =
     (let ps = map (mapProduct (t_product_batches d)) (t_products d) in
      prev\<lparr>products := ps,
           saleInvoices :=
             map (mapSaleInvoice ps (t_sale_invoice_items d))
               (newest_first sir_timestamp (t_sale_invoices d)),
           purchaseInvoices :=
             map (mapPurchaseInvoice (t_purchase_invoice_items d))
               (newest_first pur_timestamp (t_purchase_invoices d)),
           customers := t_customers d,
           suppliers := t_suppliers d,
           employees := t_employees d,
           expenses := t_expenses d,
           customerTransactions := t_customer_transactions d,
           supplierTransactions := map mapSupplierTransaction (t_supplier_transactions d),
           payrollTransactions := t_payroll_transactions d,
           activities := take 100 (newest_first a_timestamp (t_activity_logs d))\<rparr>)"

subsection \<open>Backup and restore (exportData, importData, clearAndRestoreData)\<close>


definition product_row_of :: "Product \<Rightarrow> product_row" where
  "product_row_of p =
     \<lparr>pr_id = p_id p, pr_name = p_name p, pr_sale_price = p_salePrice p,
      pr_barcode = p_barcode p, pr_manufacturer = p_manufacturer p,
      pr_items_per_package = p_itemsPerPackage p\<rparr>"

text \<open>\<open>clearAndRestoreData\<close> deletes every row of every table and inserts rows built from the
  document, so the store it leaves does not depend on the store it finds.  The column
  \<open>credit_limit\<close> of a customer is taken from the key \<open>creditLimit\<close> of the document, and the
  column \<open>contact_person\<close> of a supplier from the key \<open>contactPerson\<close>.\<close>

definition clearAndRestoreData :: "AppState \<Rightarrow> db" where
  "clearAndRestoreData data =
     \<lparr>t_products = map product_row_of (products data),
      t_product_batches =
        concat (map (\<lambda>p. map (\<lambda>b. \<lparr>br_product_id = p_id p, br_batch = b\<rparr>) (p_batches p))
                  (products data)),
      t_sale_invoices = map invoice_row_of (saleInvoices data),
      t_sale_invoice_items =
        concat (map (\<lambda>i. map (item_row_of (si_id i)) (si_items i)) (saleInvoices data)),
      t_purchase_invoices = map purchase_row_of (purchaseInvoices data),
      t_purchase_invoice_items = concat (map purchase_item_rows (purchaseInvoices data)),
      t_customers =
        map (\<lambda>c. \<lparr>c_id = c_id c, c_name = c_name c, c_phone = c_phone c, c_creditLimit = None,
                  c_credit_limit = c_creditLimit c, c_balance = c_balance c\<rparr>) (customers data),
      t_suppliers =
        map (\<lambda>s. \<lparr>sup_id = sup_id s, sup_name = sup_name s, sup_contactPerson = None,
                  sup_contact_person = sup_contactPerson s, sup_phone = sup_phone s,
                  sup_address = sup_address s, sup_balance = sup_balance s\<rparr>) (suppliers data),
      t_employees =
        map (\<lambda>e. \<lparr>e_id = e_id e, e_name = e_name e, e_position = e_position e,
                  e_monthlySalary = e_monthlySalary e, e_balance = e_balance e\<rparr>) (employees data),
      t_expenses = expenses data,
      t_customer_transactions = customerTransactions data,
      t_supplier_transactions = supplierTransactions data,
      t_payroll_transactions = payrollTransactions data,
      t_activity_logs = activities data\<rparr>"

text \<open>
  \<open>importData env confirmed data state store\<close>, for the document \<open>data\<close> that \<open>JSON.parse\<close>
  reads from the file; \<open>confirmed\<close> is the answer to \<open>window.confirm\<close>.  Offline, or when the
  user does not confirm, nothing happens; otherwise the store is restored and the local
  state is read back with \<open>fetchData\<close>.  The result is the local state and the store.
\<close>

definition importData :: "env \<Rightarrow> bool \<Rightarrow> AppState \<Rightarrow> AppState \<Rightarrow> db \<Rightarrow> AppState \<times> db" where
  "importData ev confirmed data st d =
     (if \<not> online ev then (st, d)
      else if \<not> confirmed then (st, d)
      else (fetchData (clearAndRestoreData data) st, clearAndRestoreData data))"

section \<open>An action against the store\<close>

text \<open>
  \<open>perform ev fails_at action (d)\<close> runs an action of the state container together with
  its adapter call: the call is run against the store \<open>d\<close>; the action settles with the
  result of the promise; the activity it logged is sent to the store; and when the action
  asked for \<open>fetchData()\<close>, the local state is read back from the store.  The result is the
  outcome of the action, the final local state and the final store.
\<close>

definition perform :: "env \<Rightarrow> nat option \<Rightarrow> (bool \<Rightarrow> outcome option) \<Rightarrow> db
    \<Rightarrow> (outcome \<times> AppState \<times> db) option" where
  "perform ev fails_at action d =
     (case action False of
        None \<Rightarrow> None
      | Some out0 \<Rightarrow>
          (case call out0 of
             None \<Rightarrow> Some (out0, local_state out0, d)
           | Some c \<Rightarrow>
               (case run_call ev fails_at c d of
                  (d1, resolved) \<Rightarrow>
                    (case action resolved of
                       None \<Rightarrow> None
                     | Some out \<Rightarrow>
                         let d2 = (case logged out of None \<Rightarrow> d1 | Some entry \<Rightarrow> api_addActivity entry d1)
                         in Some (out,
                                  if refetch out then fetchData d2 (local_state out) else local_state out,
                                  d2)))))"

subsection \<open>beginEditSale\<close>

definition beginEditSale :: "AppState \<Rightarrow> string \<Rightarrow> AppState option" where
  "beginEditSale st invoiceId =
     (case find (\<lambda>i. si_id i = invoiceId) (saleInvoices st) of
        None \<Rightarrow> None
      | Some invc \<Rightarrow> Some (st\<lparr>editingSaleInvoiceId := Some invoiceId, cart := si_items invc\<rparr>))"

section \<open>The terms of the specification\<close>

text \<open>The definitions of this section follow the words of the specification, not the
  source; the theorems compare them with the embedding of the source.\<close>

subsection \<open>Invoice totals\<close>

text \<open>The list price of a cart line, and its effective price: the per-line override
  (\<open>finalPrice\<close>) when present and the list price otherwise.\<close>

fun list_price :: "CartItem \<Rightarrow> rat" where
  "list_price (ProductItem it) = p_salePrice it"
| "list_price (ServiceItem s) = s_price s"

fun effective_price :: "CartItem \<Rightarrow> rat" where
  "effective_price (ProductItem it) =
     (case i_finalPrice it of None \<Rightarrow> list_price (ProductItem it) | Some override \<Rightarrow> override)"
| "effective_price (ServiceItem s) = list_price (ServiceItem s)"

subsection \<open>Stock deduction\<close>








subsection \<open>Restoring returned stock\<close>

text \<open>Adding a quantity to the stock of the first batch row found for a product.\<close>

fun restore_first :: "batch_row list \<Rightarrow> string \<Rightarrow> rat \<Rightarrow> batch_row list" where
  "restore_first [] p q = []"
| "restore_first (r # rows) p q =
     (if br_product_id r = p then set_stock (b_stock (br_batch r) + q) r # rows
      else r # restore_first rows p q)"

text \<open>The lines of a return request that name a line of the original invoice (same id and
  kind); the other lines of the request are ignored.\<close>

definition matched_lines :: "SaleInvoice \<Rightarrow> return_item list \<Rightarrow> return_item list" where
  "matched_lines orig items =
     filter (\<lambda>r. list_ex (\<lambda>i. item_id i = ri_id r \<and> item_kind_of i = ri_type r) (si_items orig))
       items"

subsection \<open>Backup and restore\<close>


subsection \<open>Auxiliary notions of the proofs\<close>






section \<open>Example data\<close>

definition example_env :: env where
  "example_env = \<lparr>online = True, now = 1000, uuid = (\<lambda>n. ''u'' @ decimal n), user = ''ali''\<rparr>"

definition empty_state :: AppState where
  "empty_state =
     \<lparr>products = [], saleInvoices = [], purchaseInvoices = [], customers = [],
      suppliers = [], employees = [], expenses = [], cart = [],
      customerTransactions = [], supplierTransactions = [], payrollTransactions = [],
      activities = [], editingSaleInvoiceId = None, editingPurchaseInvoiceId = None\<rparr>"

text \<open>A pen with two batches: stock 3 expiring 2024-01-01 and stock 10 expiring
  2024-06-01 (as milliseconds of those dates), bought at 10 and 12 a unit.\<close>

definition pen_batch1 :: ProductBatch where
  "pen_batch1 = \<lparr>b_id = ''b1'', b_lotNumber = ''L1'', b_stock = 3, b_purchasePrice = 10,
                  b_purchaseDate = 1690000000000, b_expiryDate = Some 1704067200000\<rparr>"

definition pen_batch2 :: ProductBatch where
  "pen_batch2 = \<lparr>b_id = ''b2'', b_lotNumber = ''L2'', b_stock = 10, b_purchasePrice = 12,
                  b_purchaseDate = 1680000000000, b_expiryDate = Some 1717200000000\<rparr>"

definition pen :: Product where
  "pen = \<lparr>p_id = ''p1'', p_name = ''pen'', p_salePrice = 20, p_batches = [pen_batch2, pen_batch1],
           p_barcode = None, p_manufacturer = None, p_itemsPerPackage = None\<rparr>"

text \<open>A cart line for a product, as \<open>addToCart\<close> builds it, with a quantity and an
  optional price override.\<close>

definition line_of :: "Product \<Rightarrow> rat \<Rightarrow> rat option \<Rightarrow> InvoiceItem" where
  "line_of p q fp =
     \<lparr>p_id = p_id p, p_name = p_name p, p_salePrice = p_salePrice p, p_batches = p_batches p,
      p_barcode = p_barcode p, p_manufacturer = p_manufacturer p,
      p_itemsPerPackage = p_itemsPerPackage p,
      i_quantity = q, i_purchasePrice = Some 0, i_finalPrice = fp\<rparr>"

definition pen_state :: "rat \<Rightarrow> rat option \<Rightarrow> AppState" where
  "pen_state q fp = empty_state\<lparr>products := [pen], cart := [ProductItem (line_of pen q fp)]\<rparr>"

text \<open>Ink with a single batch of stock 1.\<close>

definition ink :: Product where
  "ink = \<lparr>p_id = ''p2'', p_name = ''ink'', p_salePrice = 50,
           p_batches = [\<lparr>b_id = ''b3'', b_lotNumber = ''L3'', b_stock = 1, b_purchasePrice = 30,
                        b_purchaseDate = 1690000000000, b_expiryDate = None\<rparr>],
           p_barcode = None, p_manufacturer = None, p_itemsPerPackage = None\<rparr>"




text \<open>An invoice being edited: F1 sold one unit of ink on credit to customer c1 and left a
  stock of 4; the cart now asks for 4 units.\<close>

definition ink_stock :: "rat \<Rightarrow> Product" where
  "ink_stock s =
     \<lparr>p_id = ''p2'', p_name = ''ink'', p_salePrice = 50,
      p_batches = [\<lparr>b_id = ''b3'', b_lotNumber = ''L3'', b_stock = s, b_purchasePrice = 30,
                   b_purchaseDate = 1690000000000, b_expiryDate = None\<rparr>],
      p_barcode = None, p_manufacturer = None, p_itemsPerPackage = Some 1\<rparr>"

definition ink_line :: "rat \<Rightarrow> CartItem" where
  "ink_line q =
     ProductItem
       \<lparr>p_id = ''p2'', p_name = ''ink'', p_salePrice = 50, p_batches = [],
        p_barcode = None, p_manufacturer = None, p_itemsPerPackage = Some 1,
        i_quantity = q, i_purchasePrice = Some 30, i_finalPrice = Some 50\<rparr>"

definition invoice_F1 :: SaleInvoice where
  "invoice_F1 =
     \<lparr>si_id = ''F1'', si_type = Sale, si_originalInvoiceId = None, si_items = [ink_line 1],
      si_subtotal = 50, si_totalDiscount = 0, si_totalAmount = 50, si_timestamp = 500,
      si_cashier = ''ali'', si_customerId = Some ''c1''\<rparr>"

definition customer_c1 :: "rat \<Rightarrow> Customer" where
  "customer_c1 b =
     \<lparr>c_id = ''c1'', c_name = ''Omid'', c_phone = None, c_creditLimit = None,
      c_credit_limit = None, c_balance = b\<rparr>"

definition credit_F1 :: CustomerTransaction where
  "credit_F1 =
     \<lparr>ct_id = ''t1'', ct_customerId = ''c1'', ct_type = credit_sale, ct_amount = 50,
      ct_date = 500, ct_description = SaleInvoiceNo ''F1'', ct_invoiceId = Some ''F1''\<rparr>"

definition edit_state :: AppState where
  "edit_state =
     empty_state\<lparr>products := [ink_stock 4], saleInvoices := [invoice_F1],
                 customers := [customer_c1 50], customerTransactions := [credit_F1],
                 cart := [ink_line 4], editingSaleInvoiceId := Some ''F1''\<rparr>"

text \<open>The store that mirrors \<open>edit_state\<close>, and the same store with a stock of 1 for the ink
  batch.\<close>

definition edit_db :: db where
  "edit_db = clearAndRestoreData edit_state"

definition stale_db :: db where
  "stale_db = edit_db\<lparr>t_product_batches := map (set_stock 1) (t_product_batches edit_db)\<rparr>"

text \<open>Two employees: one with a salary of 1000 and advances of 200, one with a salary of 500
  and advances of 700.\<close>

definition payroll_state :: AppState where
  "payroll_state =
     empty_state\<lparr>employees :=
       [\<lparr>e_id = ''e1'', e_name = ''Sara'', e_position = ''clerk'', e_monthlySalary = 1000,
         e_balance = 200\<rparr>,
        \<lparr>e_id = ''e2'', e_name = ''Reza'', e_position = ''driver'', e_monthlySalary = 500,
         e_balance = 700\<rparr>]\<rparr>"

text \<open>A purchase in USD at the rate 70 from a supplier owed 100: ten units of ink at 2 USD.\<close>

definition supplier_s1 :: "rat \<Rightarrow> Supplier" where
  "supplier_s1 b =
     \<lparr>sup_id = ''s1'', sup_name = ''Noor'', sup_contactPerson = None, sup_contact_person = None,
      sup_phone = None, sup_address = None, sup_balance = b\<rparr>"

definition supplier_state :: AppState where
  "supplier_state = empty_state\<lparr>products := [ink], suppliers := [supplier_s1 100]\<rparr>"

definition usd_purchase :: purchase_input where
  "usd_purchase =
     \<lparr>in_supplierId = ''s1'', in_invoiceNumber = ''A-7'',
      in_items = [\<lparr>ii_productId = ''p2'', ii_quantity = 10, ii_purchasePrice = 2,
                   ii_lotNumber = ''L9'', ii_expiryDate = None\<rparr>],
      in_timestamp = 900, in_currency = Some USD, in_exchangeRate = 70\<rparr>"

text \<open>The pens after the sale of five (three from batch b1, two from batch b2), the invoice
  of that sale, and the store that mirrors this state.\<close>

definition sold_pen :: Product where
  "sold_pen = pen\<lparr>p_batches := [pen_batch2\<lparr>b_stock := 8\<rparr>, pen_batch1\<lparr>b_stock := 0\<rparr>]\<rparr>"

definition pen_invoice :: SaleInvoice where
  "pen_invoice =
     \<lparr>si_id = ''F1'', si_type = Sale, si_originalInvoiceId = None,
      si_items = [ProductItem ((line_of pen 5 None)\<lparr>i_purchasePrice := Some (54 / 5)\<rparr>)],
      si_subtotal = 100, si_totalDiscount = 0, si_totalAmount = 100, si_timestamp = 500,
      si_cashier = ''ali'', si_customerId = None\<rparr>"

definition return_state :: AppState where
  "return_state = empty_state\<lparr>products := [sold_pen], saleInvoices := [pen_invoice]\<rparr>"

definition return_db :: db where
  "return_db = clearAndRestoreData return_state"




section \<open>Invoice totals of a completed sale\<close>

lemma foldl_plus_sum_list:
  "foldl (\<lambda>total x. f x + total) a xs = a + sum_list (map f xs)"
  for a :: rat
  by (induction xs arbitrary: a) (simp_all add: algebra_simps)

lemma getPrice_spec: "getPrice i = (effective_price i, list_price i)"
  by (cases i) (simp_all split: option.splits)

lemma newSubtotal_sum: "newSubtotal c = (\<Sum>i\<leftarrow>c. list_price i * item_quantity i)"
  by (simp add: newSubtotal_def foldl_plus_sum_list getPrice_spec)

lemma newTotalAmount_sum: "newTotalAmount c = (\<Sum>i\<leftarrow>c. effective_price i * item_quantity i)"
  by (simp add: newTotalAmount_def foldl_plus_sum_list getPrice_spec)

lemma completeSale_invoice:
  assumes "completeSale ev resolved st cashier cid = Some out"
    and "invoice (returned out) = Some fi"
  shows "cart st \<noteq> [] \<and> si_type fi = Sale \<and> si_subtotal fi = newSubtotal (cart st)
       \<and> si_totalAmount fi = newTotalAmount (cart st)
       \<and> si_totalDiscount fi = newSubtotal (cart st) - newTotalAmount (cart st)"
  using assms
  by (auto simp: completeSale_def failure_def Let_def
           split: if_splits sum.splits option.splits prod.splits)

lemma surcharge_sale:
  "(case completeSale example_env True (pen_state 5 (Some 25)) ''ali'' None of
      None \<Rightarrow> False
    | Some out \<Rightarrow> (case invoice (returned out) of
                     None \<Rightarrow> False
                   | Some fi \<Rightarrow> si_totalDiscount fi = - 25))"
  by code_simp

text \<open>
  Claim C5.  Whenever \<open>completeSale\<close> produces an invoice, the cart is not empty, the
  invoice's subtotal is the sum over the cart lines of list price times quantity, its
  total is the sum of effective price times quantity, its discount is subtotal minus
  total, and so total = subtotal - discount.  The discount can be negative: some sale
  produces an invoice with a negative discount (an override above the list price).
\<close>

theorem completeSale_totals:
  "(completeSale ev resolved st cashier cid = Some out \<and> invoice (returned out) = Some fi \<longrightarrow>
      cart st \<noteq> [] \<and>
      si_subtotal fi = (\<Sum>i\<leftarrow>cart st. list_price i * item_quantity i) \<and>
      si_totalAmount fi = (\<Sum>i\<leftarrow>cart st. effective_price i * item_quantity i) \<and>
      si_totalDiscount fi = si_subtotal fi - si_totalAmount fi \<and>
      si_totalAmount fi = si_subtotal fi - si_totalDiscount fi)
   \<and> (\<exists>ev' st' cashier' out' fi'.
         completeSale ev' True st' cashier' None = Some out' \<and>
         invoice (returned out') = Some fi' \<and> si_totalDiscount fi' < 0)"
proof
  show "completeSale ev resolved st cashier cid = Some out \<and> invoice (returned out) = Some fi \<longrightarrow>
      cart st \<noteq> [] \<and>
      si_subtotal fi = (\<Sum>i\<leftarrow>cart st. list_price i * item_quantity i) \<and>
      si_totalAmount fi = (\<Sum>i\<leftarrow>cart st. effective_price i * item_quantity i) \<and>
      si_totalDiscount fi = si_subtotal fi - si_totalAmount fi \<and>
      si_totalAmount fi = si_subtotal fi - si_totalDiscount fi"
  proof
    assume a: "completeSale ev resolved st cashier cid = Some out \<and> invoice (returned out) = Some fi"
    then have "cart st \<noteq> [] \<and> si_type fi = Sale \<and> si_subtotal fi = newSubtotal (cart st)
       \<and> si_totalAmount fi = newTotalAmount (cart st)
       \<and> si_totalDiscount fi = newSubtotal (cart st) - newTotalAmount (cart st)"
      using completeSale_invoice by blast
    then show "cart st \<noteq> [] \<and>
      si_subtotal fi = (\<Sum>i\<leftarrow>cart st. list_price i * item_quantity i) \<and>
      si_totalAmount fi = (\<Sum>i\<leftarrow>cart st. effective_price i * item_quantity i) \<and>
      si_totalDiscount fi = si_subtotal fi - si_totalAmount fi \<and>
      si_totalAmount fi = si_subtotal fi - si_totalDiscount fi"
      by (simp add: newSubtotal_sum newTotalAmount_sum)
  qed
next
  obtain out fi where
    "completeSale example_env True (pen_state 5 (Some 25)) ''ali'' None = Some out"
    "invoice (returned out) = Some fi" "si_totalDiscount fi = - 25"
    using surcharge_sale by (auto split: option.splits)
  then show "\<exists>ev' st' cashier' out' fi'.
         completeSale ev' True st' cashier' None = Some out' \<and>
         invoice (returned out') = Some fi' \<and> si_totalDiscount fi' < 0"
    by force
qed

text \<open>Witness: five pens of list price 20 sold at the override 25.\<close>

lemma pen_sale_25:
  "(case completeSale example_env True (pen_state 5 (Some 25)) ''ali'' None of
      None \<Rightarrow> False
    | Some out \<Rightarrow> invoice (returned out) \<noteq> None)"
  by code_simp

theorem completeSale_totals_witness:
  "\<exists>out fi. completeSale example_env True (pen_state 5 (Some 25)) ''ali'' None = Some out \<and>
      invoice (returned out) = Some fi \<and>
      si_subtotal fi = 100 \<and> si_totalAmount fi = 125 \<and> si_totalDiscount fi = - 25 \<and>
      si_totalAmount fi = si_subtotal fi - si_totalDiscount fi"
proof -
  obtain out fi where o:
    "completeSale example_env True (pen_state 5 (Some 25)) ''ali'' None = Some out"
    "invoice (returned out) = Some fi"
    using pen_sale_25 by (auto split: option.splits)
  have c: "cart (pen_state 5 (Some 25)) = [ProductItem (line_of pen 5 (Some 25))]"
    by (simp add: pen_state_def)
  from completeSale_totals [of example_env True "pen_state 5 (Some 25)" "''ali''" None out fi] o
  have "si_subtotal fi = 100 \<and> si_totalAmount fi = 125 \<and>
        si_totalDiscount fi = si_subtotal fi - si_totalAmount fi \<and>
        si_totalAmount fi = si_subtotal fi - si_totalDiscount fi"
    by (simp add: c line_of_def pen_def)
  with o show ?thesis by auto
qed


section \<open>The stock deduction loop\<close>
















section \<open>The order of consumption\<close>
















section \<open>The loop over the cart\<close>
















section \<open>First-expiring-first-out deduction of a sale\<close>






section \<open>Sales that the stock does not cover\<close>













section \<open>A rejected or stale sale edit\<close>

text \<open>
  Claim C7 fails for a sale completed in edit mode.  When the promise of \<open>updateSale\<close>
  rejects, \<open>completeSale\<close> shows no message, and the local state is not what it was: the
  cart is emptied and the editing marker is cleared (the source does so right after the
  call, not in a callback, and attaches no \<open>catch\<close>).  In create mode the same rejection
  shows the failure toast and leaves the local state as it was.
\<close>

theorem completeSale_edit_rejected:
  "(case completeSale example_env False edit_state ''ali'' (Some ''c1'') of
      None \<Rightarrow> False
    | Some out \<Rightarrow>
        call out \<noteq> None \<and> toasts out = [] \<and>
        local_state out = edit_state\<lparr>editingSaleInvoiceId := None, cart := []\<rparr> \<and>
        local_state out \<noteq> edit_state)
   \<and> (case completeSale example_env False (pen_state 5 None) ''ali'' None of
      None \<Rightarrow> False
    | Some out \<Rightarrow>
        call out \<noteq> None \<and> toasts out = [InvoiceServerError] \<and>
        local_state out = pen_state 5 None)"
  by code_simp

text \<open>
  Claim C3 fails for a sale edit.  \<open>updateSale\<close> subtracts the deductions, which
  \<open>completeSale\<close> computed from the local stock, from the stock it reads in the store,
  without a floor at 0.  Let the store hold a stock of 1 for the ink batch while the local
  state still shows 4; every batch has a stock of at least 0 on both sides.  Editing
  invoice F1 from 1 unit to 4 restores 1 and deducts 4: the stock in the store, and after
  \<open>fetchData\<close> the local stock, is -2.  This state is what a first attempt at the same
  edit leaves when the update of the invoice header fails: the stock has then been
  changed in the store, the promise rejects, and the local state is not read back.
\<close>

theorem updateSale_negative_stock:
  "list_all (\<lambda>p. list_all (\<lambda>b. 0 \<le> b_stock b) (p_batches p)) (products edit_state) \<and>
   list_all (\<lambda>r. 0 \<le> b_stock (br_batch r)) (t_product_batches stale_db) \<and>
   (case perform example_env None (\<lambda>r. completeSale example_env r edit_state ''ali'' (Some ''c1'')) stale_db of
      None \<Rightarrow> False
    | Some (out, st', d') \<Rightarrow>
        success (returned out) \<and>
        map (\<lambda>r. b_stock (br_batch r)) (t_product_batches d') = [- 2] \<and>
        map (\<lambda>p. map b_stock (p_batches p)) (products st') = [[- 2]]) \<and>
   (case perform example_env (Some 0) (\<lambda>r. completeSale example_env r edit_state ''ali'' (Some ''c1'')) edit_db of
      None \<Rightarrow> False
    | Some (out, st', d') \<Rightarrow>
        t_product_batches d' = t_product_batches stale_db \<and>
        products st' = products edit_state)"
  by code_simp


section \<open>Payroll\<close>


lemma foldl_plus_sum_list':
  "foldl (\<lambda>total x. total + f x) a xs = a + sum_list (map f xs)"
  for a :: rat
  by (induction xs arbitrary: a) (simp_all add: algebra_simps)

lemma sum_list_pos_rat:
  "xs \<noteq> [] \<Longrightarrow> list_all (\<lambda>x. 0 < f x) xs \<Longrightarrow> 0 < (sum_list (map f xs) :: rat)"
proof (induction xs)
  case Nil
  then show ?case by simp
next
  case (Cons a xs)
  then show ?case by (cases "xs = []") (simp_all add: add_pos_pos)
qed

lemma map_enumerate_snd:
  "map (\<lambda>(n, x). g x) (enumerate k xs) = map g xs"
  by (induction xs arbitrary: k) auto

lemma payable_filter:
  "filter (\<lambda>emp. 0 < netSalary emp) es = filter (\<lambda>e. e_balance e < e_monthlySalary e) es"
  by (simp add: netSalary_def)

lemma totalPaid_zero:
  "(foldl (\<lambda>total emp. total + netSalary emp) 0 (filter (\<lambda>emp. 0 < netSalary emp) es) = 0)
   = (\<not> list_ex (\<lambda>e. e_balance e < e_monthlySalary e) es)"
proof (cases "filter (\<lambda>emp. 0 < netSalary emp) es = []")
  case True
  then have "\<not> list_ex (\<lambda>e. 0 < netSalary e) es"
    by (simp add: list_ex_iff filter_empty_conv)
  then show ?thesis using True by (simp add: netSalary_def)
next
  case False
  have "list_all (\<lambda>emp. 0 < netSalary emp) (filter (\<lambda>emp. 0 < netSalary emp) es)"
    by (simp add: list_all_iff)
  from sum_list_pos_rat [OF False this]
  have "0 < foldl (\<lambda>total emp. total + netSalary emp) 0 (filter (\<lambda>emp. 0 < netSalary emp) es)"
    by (simp add: foldl_plus_sum_list')
  moreover have "list_ex (\<lambda>e. 0 < netSalary e) es"
    using False by (auto simp: list_ex_iff filter_empty_conv)
  ultimately show ?thesis by (simp add: netSalary_def)
qed

text \<open>
  Claim C10.  Online, when some employee has a monthly salary above the balance,
  \<open>processAndPaySalaries\<close> succeeds and calls \<open>processPayroll\<close> with the ids of all
  employees, one \<open>salary_payment\<close> transaction per employee whose salary exceeds the
  balance, of amount salary minus balance, and one expense of category \<open>salary\<close> whose
  amount is the sum of the transactions' amounts; once the call has resolved, the local
  state holds these transactions and this expense in front of the earlier ones, and every
  employee's balance is 0.  In the store the transactions and the expense are added, and
  every employee row bearing the id of a local employee has balance 0.  When no employee
  has a salary above the balance, the action returns failure, makes no call and leaves the
  state as it is.
\<close>

theorem processAndPaySalaries_spec:
  assumes "online ev"
  shows "if list_ex (\<lambda>e. e_balance e < e_monthlySalary e) (employees st)
         then (\<exists>txs expense.
                 success (returned (processAndPaySalaries ev True st)) \<and>
                 call (processAndPaySalaries ev True st) =
                   Some (ProcessPayroll (map e_id (employees st)) txs expense) \<and>
                 map (\<lambda>t. (pt_employeeId t, pt_type t, pt_amount t)) txs =
                   map (\<lambda>e. (e_id e, salary_payment, e_monthlySalary e - e_balance e))
                     (filter (\<lambda>e. e_balance e < e_monthlySalary e) (employees st)) \<and>
                 x_category expense = salary \<and>
                 x_amount expense = sum_list (map pt_amount txs) \<and>
                 payrollTransactions (local_state (processAndPaySalaries ev True st)) =
                   txs @ payrollTransactions st \<and>
                 expenses (local_state (processAndPaySalaries ev True st)) = expense # expenses st \<and>
                 employees (local_state (processAndPaySalaries ev True st)) =
                   map (\<lambda>e. e\<lparr>e_balance := 0\<rparr>) (employees st) \<and>
                 t_payroll_transactions (fst (api_processPayroll (map e_id (employees st)) txs expense d)) =
                   t_payroll_transactions d @ txs \<and>
                 t_expenses (fst (api_processPayroll (map e_id (employees st)) txs expense d)) =
                   t_expenses d @ [expense] \<and>
                 t_employees (fst (api_processPayroll (map e_id (employees st)) txs expense d)) =
                   map (\<lambda>e. if e_id e \<in> set (map e_id (employees st)) then e\<lparr>e_balance := 0\<rparr> else e)
                     (t_employees d))
         else processAndPaySalaries ev resolved st =
                \<lparr>returned = \<lparr>success = False, invoice = None, message = NoSalaryToPay\<rparr>,
                 call = None, toasts = [], logged = None, local_state = st, refetch = False\<rparr>"
proof (cases "list_ex (\<lambda>e. e_balance e < e_monthlySalary e) (employees st)")
  case False
  then show ?thesis using assms
    by (simp add: processAndPaySalaries_def Let_def totalPaid_zero failure_def)
next
  case True
  let ?payable = "filter (\<lambda>emp. 0 < netSalary emp) (employees st)"
  let ?txs = "map (\<lambda>(n, emp).
                     \<lparr>pt_id = uuid ev n, pt_employeeId = e_id emp, pt_type = salary_payment,
                      pt_amount = netSalary emp, pt_date = now ev, pt_description = MonthlySalary\<rparr>)
                (enumerate 0 ?payable)"
  let ?total = "foldl (\<lambda>total emp. total + netSalary emp) 0 ?payable"
  let ?expense = "\<lparr>x_id = uuid ev (length ?payable), x_category = salary,
                 x_description = MonthlySalary, x_amount = ?total, x_date = now ev\<rparr>"
  have nz: "?total \<noteq> 0" using True by (simp add: totalPaid_zero)
  have 1: "map (\<lambda>t. (pt_employeeId t, pt_type t, pt_amount t)) ?txs =
           map (\<lambda>e. (e_id e, salary_payment, e_monthlySalary e - e_balance e))
             (filter (\<lambda>e. e_balance e < e_monthlySalary e) (employees st))"
    by (simp add: comp_def split_def map_enumerate_snd [of "\<lambda>e. (e_id e, salary_payment, netSalary e)", unfolded split_def]
          payable_filter) (simp add: netSalary_def)
  have 2: "x_amount ?expense = sum_list (map pt_amount ?txs)"
    by (simp add: foldl_plus_sum_list' comp_def split_def map_enumerate_snd [of netSalary, unfolded split_def])
  have 3: "t_employees (fst (api_processPayroll ids txs expense d)) =
           map (\<lambda>e. if e_id e \<in> set ids then e\<lparr>e_balance := 0\<rparr> else e) (t_employees d)"
    for ids txs expense
  proof -
    have "foldl (\<lambda>rows u. update_where (\<lambda>e. e_id e = u) (\<lambda>e. e\<lparr>e_balance := 0\<rparr>) rows) rows ids =
          map (\<lambda>e. if e_id e \<in> set ids then e\<lparr>e_balance := 0\<rparr> else e) rows" for rows
      by (induction ids arbitrary: rows) (auto simp: update_where_def)
    then show ?thesis by (simp add: api_processPayroll_def)
  qed
  have "success (returned (processAndPaySalaries ev True st)) \<and>
        call (processAndPaySalaries ev True st) =
          Some (ProcessPayroll (map e_id (employees st)) ?txs ?expense) \<and>
        payrollTransactions (local_state (processAndPaySalaries ev True st)) =
          ?txs @ payrollTransactions st \<and>
        expenses (local_state (processAndPaySalaries ev True st)) = ?expense # expenses st \<and>
        employees (local_state (processAndPaySalaries ev True st)) =
          map (\<lambda>e. e\<lparr>e_balance := 0\<rparr>) (employees st)"
    using assms nz by (simp add: processAndPaySalaries_def Let_def addActivityLocal_def)
  moreover have "x_category ?expense = salary" by simp
  moreover have
    "t_payroll_transactions (fst (api_processPayroll (map e_id (employees st)) ?txs ?expense d)) =
       t_payroll_transactions d @ ?txs \<and>
     t_expenses (fst (api_processPayroll (map e_id (employees st)) ?txs ?expense d)) =
       t_expenses d @ [?expense]"
    by (simp add: api_processPayroll_def)
  ultimately show ?thesis using True 1 2 3 [of "map e_id (employees st)" ?txs ?expense]
    by (simp only: if_True) blast
qed


text \<open>Witness: of the two employees of \<open>payroll_state\<close> only the first is paid, 800.\<close>

theorem processAndPaySalaries_spec_witness:
  "online example_env \<and>
   (\<exists>txs expense.
      call (processAndPaySalaries example_env True payroll_state) =
        Some (ProcessPayroll [''e1'', ''e2''] txs expense) \<and>
      map (\<lambda>t. (pt_employeeId t, pt_type t, pt_amount t)) txs = [(''e1'', salary_payment, 800)] \<and>
      x_category expense = salary \<and> x_amount expense = 800 \<and>
      map e_balance (employees (local_state (processAndPaySalaries example_env True payroll_state))) =
        [0, 0])"
proof -
  have o: "online example_env" by (simp add: example_env_def)
  have e: "employees payroll_state =
       [\<lparr>e_id = ''e1'', e_name = ''Sara'', e_position = ''clerk'', e_monthlySalary = 1000,
         e_balance = 200\<rparr>,
        \<lparr>e_id = ''e2'', e_name = ''Reza'', e_position = ''driver'', e_monthlySalary = 500,
         e_balance = 700\<rparr>]"
    by (simp add: payroll_state_def)
  from processAndPaySalaries_spec [OF o, of payroll_state "clearAndRestoreData payroll_state"]
  obtain txs expense where
    "call (processAndPaySalaries example_env True payroll_state) =
        Some (ProcessPayroll [''e1'', ''e2''] txs expense)"
    "map (\<lambda>t. (pt_employeeId t, pt_type t, pt_amount t)) txs = [(''e1'', salary_payment, 800)]"
    "x_category expense = salary" "x_amount expense = sum_list (map pt_amount txs)"
    "map e_balance (employees (local_state (processAndPaySalaries example_env True payroll_state))) =
        [0, 0]"
    by (auto simp: e)
  moreover from this(2) have "map pt_amount txs = [800]" by auto
  ultimately show ?thesis using o by auto
qed


section \<open>Purchases in a foreign currency\<close>

lemma sum_list_scale_rat:
  "(\<Sum>i\<leftarrow>xs. f i * r * g i) = r * (\<Sum>i\<leftarrow>xs. f i * g i)"
  for r :: rat
  by (induction xs) (simp_all add: algebra_simps)

text \<open>
  Claim C6.  Online and with a known supplier, \<open>addPurchaseInvoice\<close> for an invoice with
  rate \<open>r\<close> (the entered exchange rate when the currency is USD, 1 otherwise) calls
  \<open>createPurchase\<close> with: one new batch per item, whose purchase price is the entered
  price times \<open>r\<close>; an invoice whose total is the sum of converted price times quantity,
  carrying the currency and the rate; a new supplier balance equal to the old balance plus
  that total; and a ledger transaction tagged with the invoice's currency, whose amount is
  the total divided by \<open>r\<close> for USD (the sum of entered price times quantity when \<open>r\<close> is
  not 0) and the total itself otherwise.  The store receives exactly these batches and
  this balance, and the local state after the call has resolved adds the total to the
  supplier's balance.
\<close>

theorem addPurchaseInvoice_currency:
  assumes "online ev"
    and "find (\<lambda>s. sup_id s = in_supplierId inp) (suppliers st) = Some supplier"
    and "r = (if in_currency inp = Some USD then in_exchangeRate inp else 1)"
  shows "\<exists>invc su nbs.
     call (addPurchaseInvoice ev resolved st inp) = Some (CreatePurchase invc su nbs) \<and>
     map (\<lambda>b. (nb_productId b, b_stock (nb_batch b), b_purchasePrice (nb_batch b))) nbs =
       map (\<lambda>i. (ii_productId i, ii_quantity i, ii_purchasePrice i * r)) (in_items inp) \<and>
     map pi_purchasePrice (pu_items invc) = map (\<lambda>i. ii_purchasePrice i * r) (in_items inp) \<and>
     pu_totalAmount invc = (\<Sum>i\<leftarrow>in_items inp. ii_purchasePrice i * r * ii_quantity i) \<and>
     pu_currency invc = in_currency inp \<and> pu_exchangeRate invc = Some r \<and>
     spu_id su = sup_id supplier \<and>
     spu_newBalance su = sup_balance supplier + pu_totalAmount invc \<and>
     st_currency (spu_transaction su) = in_currency inp \<and>
     st_amount (spu_transaction su) =
       (if in_currency inp = Some USD then js_div (pu_totalAmount invc) r
        else Some (pu_totalAmount invc)) \<and>
     (if r = 0 then st_amount (spu_transaction su) = None
      else st_amount (spu_transaction su) =
             Some (\<Sum>i\<leftarrow>in_items inp. ii_purchasePrice i * ii_quantity i)) \<and>
     suppliers (local_state (addPurchaseInvoice ev True st inp)) =
       map (\<lambda>s. if sup_id s = sup_id supplier
                 then s\<lparr>sup_balance := sup_balance s + pu_totalAmount invc\<rparr> else s) (suppliers st) \<and>
     t_product_batches (fst (api_createPurchase None invc su nbs d)) =
       t_product_batches d @ map (\<lambda>b. \<lparr>br_product_id = nb_productId b, br_batch = nb_batch b\<rparr>) nbs \<and>
     t_suppliers (fst (api_createPurchase None invc su nbs d)) =
       map (\<lambda>s. if sup_id s = sup_id supplier
                 then s\<lparr>sup_balance := sup_balance supplier + pu_totalAmount invc\<rparr> else s)
         (t_suppliers d) \<and>
     t_supplier_transactions (fst (api_createPurchase None invc su nbs d)) =
       t_supplier_transactions d @ [spu_transaction su]"
proof -
  define isUSD where "isUSD = (in_currency inp = Some USD)"
  define items where "items =
     map (\<lambda>item. \<lparr>pi_productId = ii_productId item,
             pi_productName =
               (case find (\<lambda>p. p_id p = ii_productId item) (products st) of
                  None \<Rightarrow> unknown_name
                | Some p \<Rightarrow> if p_name p = [] then unknown_name else p_name p),
             pi_quantity = ii_quantity item, pi_purchasePrice = ii_purchasePrice item * r,
             pi_lotNumber = ii_lotNumber item, pi_expiryDate = ii_expiryDate item\<rparr>)
       (in_items inp)"
  define total where
    "total = foldl (\<lambda>total item. total + pi_purchasePrice item * pi_quantity item) 0 items"
  define invc where "invc =
     \<lparr>pu_id = generateNextId ''P'' (map pu_id (purchaseInvoices st)), pu_type = Purchase,
      pu_originalInvoiceId = None, pu_supplierId = in_supplierId inp,
      pu_invoiceNumber = (if in_invoiceNumber inp \<noteq> [] then in_invoiceNumber inp
                          else generateNextId ''P'' (map pu_id (purchaseInvoices st))),
      pu_items = items, pu_totalAmount = total, pu_timestamp = in_timestamp inp,
      pu_currency = in_currency inp, pu_exchangeRate = Some r\<rparr>"
  define nbs where "nbs =
     map (\<lambda>(n, item). \<lparr>nb_productId = pi_productId item,
             nb_batch = \<lparr>b_id = uuid ev n, b_lotNumber = pi_lotNumber item,
                         b_stock = pi_quantity item, b_purchasePrice = pi_purchasePrice item,
                         b_purchaseDate = in_timestamp inp, b_expiryDate = pi_expiryDate item\<rparr>\<rparr>)
       (enumerate 0 items)"
  define su where "su =
     \<lparr>spu_id = sup_id supplier, spu_newBalance = sup_balance supplier + total,
      spu_transaction =
        \<lparr>st_id = uuid ev (length items), st_supplierId = sup_id supplier, st_type = purchase,
         st_amount = (if isUSD then js_div total r else Some total),
         st_date = in_timestamp inp,
         st_description =
           PurchaseInvoiceNo (pu_invoiceNumber invc)
             (if isUSD then map_option js_round (js_div total r) else None),
         st_invoiceId = Some (pu_id invc), st_currency = in_currency inp\<rparr>\<rparr>"
  have r: "(if in_currency inp = Some USD then in_exchangeRate inp else 1) = r"
    using assms(3) by simp
  have c: "call (addPurchaseInvoice ev resolved st inp) = Some (CreatePurchase invc su nbs)"
    unfolding addPurchaseInvoice_def Let_def r
    using assms(1,2)
    by (simp add: items_def [symmetric] total_def [symmetric] isUSD_def [symmetric]
          invc_def nbs_def su_def)
  have l: "suppliers (local_state (addPurchaseInvoice ev True st inp)) =
       map (\<lambda>s. if sup_id s = sup_id supplier
                 then s\<lparr>sup_balance := sup_balance s + pu_totalAmount invc\<rparr> else s) (suppliers st)"
    unfolding addPurchaseInvoice_def Let_def r
    using assms(1,2)
    by (simp add: items_def [symmetric] total_def [symmetric] invc_def addActivityLocal_def)
  have t: "total = (\<Sum>i\<leftarrow>in_items inp. ii_purchasePrice i * r * ii_quantity i)"
    by (simp add: total_def items_def foldl_plus_sum_list' comp_def)
  have b: "map (\<lambda>b. (nb_productId b, b_stock (nb_batch b), b_purchasePrice (nb_batch b))) nbs =
       map (\<lambda>i. (ii_productId i, ii_quantity i, ii_purchasePrice i * r)) (in_items inp)"
  proof -
    have "map (\<lambda>b. (nb_productId b, b_stock (nb_batch b), b_purchasePrice (nb_batch b))) nbs =
          map (\<lambda>item. (pi_productId item, pi_quantity item, pi_purchasePrice item)) items"
      by (simp add: nbs_def comp_def split_def
            map_enumerate_snd [of "\<lambda>item. (pi_productId item, pi_quantity item, pi_purchasePrice item)",
              unfolded split_def])
    then show ?thesis by (simp add: items_def comp_def)
  qed
  have i: "map pi_purchasePrice (pu_items invc) = map (\<lambda>i. ii_purchasePrice i * r) (in_items inp)"
    by (simp add: invc_def items_def comp_def)
  have a: "st_amount (spu_transaction su) =
       (if in_currency inp = Some USD then js_div (pu_totalAmount invc) r
        else Some (pu_totalAmount invc))"
    by (simp add: su_def invc_def isUSD_def)
  have a0: "if r = 0 then st_amount (spu_transaction su) = None
      else st_amount (spu_transaction su) =
             Some (\<Sum>i\<leftarrow>in_items inp. ii_purchasePrice i * ii_quantity i)"
  proof (cases "in_currency inp = Some USD")
    case True
    then show ?thesis
      by (simp add: su_def isUSD_def js_div_def t sum_list_scale_rat)
  next
    case False
    then have "r = 1" using assms(3) by simp
    then show ?thesis using False by (simp add: su_def isUSD_def t)
  qed
  have d: "t_product_batches (fst (api_createPurchase None invc su nbs d)) =
       t_product_batches d @ map (\<lambda>b. \<lparr>br_product_id = nb_productId b, br_batch = nb_batch b\<rparr>) nbs \<and>
     t_suppliers (fst (api_createPurchase None invc su nbs d)) =
       map (\<lambda>s. if sup_id s = sup_id supplier
                 then s\<lparr>sup_balance := sup_balance supplier + pu_totalAmount invc\<rparr> else s)
         (t_suppliers d) \<and>
     t_supplier_transactions (fst (api_createPurchase None invc su nbs d)) =
       t_supplier_transactions d @ [spu_transaction su]"
    by (simp add: api_createPurchase_def Let_def update_where_def su_def invc_def)
  have m: "pu_totalAmount invc = (\<Sum>i\<leftarrow>in_items inp. ii_purchasePrice i * r * ii_quantity i) \<and>
     pu_currency invc = in_currency inp \<and> pu_exchangeRate invc = Some r \<and>
     spu_id su = sup_id supplier \<and>
     spu_newBalance su = sup_balance supplier + pu_totalAmount invc \<and>
     st_currency (spu_transaction su) = in_currency inp"
    by (simp add: invc_def su_def t)
  from c b i m a a0 l d show ?thesis by blast
qed


text \<open>Witness: ten units at 2 USD and the rate 70 give a batch price of 140, a total of 1400,
  a balance of 1500 and a ledger amount of 20 USD.\<close>

theorem addPurchaseInvoice_currency_witness:
  "online example_env \<and>
   find (\<lambda>s. sup_id s = in_supplierId usd_purchase) (suppliers supplier_state) =
     Some (supplier_s1 100) \<and>
   (\<exists>invc su nbs.
      call (addPurchaseInvoice example_env True supplier_state usd_purchase) =
        Some (CreatePurchase invc su nbs) \<and>
      map (\<lambda>b. (nb_productId b, b_stock (nb_batch b), b_purchasePrice (nb_batch b))) nbs =
        [(''p2'', 10, 140)] \<and>
      pu_totalAmount invc = 1400 \<and> pu_currency invc = Some USD \<and> pu_exchangeRate invc = Some 70 \<and>
      spu_newBalance su = 1500 \<and>
      st_amount (spu_transaction su) = Some 20 \<and> st_currency (spu_transaction su) = Some USD \<and>
      map sup_balance (suppliers (local_state
        (addPurchaseInvoice example_env True supplier_state usd_purchase))) = [1500])"
proof -
  have o: "online example_env" by (simp add: example_env_def)
  have f: "find (\<lambda>s. sup_id s = in_supplierId usd_purchase) (suppliers supplier_state) =
     Some (supplier_s1 100)"
    by (simp add: usd_purchase_def supplier_state_def supplier_s1_def)
  have r: "70 = (if in_currency usd_purchase = Some USD then in_exchangeRate usd_purchase else 1)"
    by (simp add: usd_purchase_def)
  have s: "suppliers supplier_state = [supplier_s1 100]"
    by (simp add: supplier_state_def)
  from addPurchaseInvoice_currency [OF o f r, of True "clearAndRestoreData supplier_state"]
  obtain invc su nbs where
    "call (addPurchaseInvoice example_env True supplier_state usd_purchase) =
        Some (CreatePurchase invc su nbs)"
    "map (\<lambda>b. (nb_productId b, b_stock (nb_batch b), b_purchasePrice (nb_batch b))) nbs =
        [(''p2'', 10, 140)]"
    "pu_totalAmount invc = 1400" "pu_currency invc = Some USD" "pu_exchangeRate invc = Some 70"
    "spu_newBalance su = 1500"
    "st_amount (spu_transaction su) = Some 20" "st_currency (spu_transaction su) = Some USD"
    "map sup_balance (suppliers (local_state
        (addPurchaseInvoice example_env True supplier_state usd_purchase))) = [1500]"
    by (auto simp: usd_purchase_def s supplier_s1_def)
  with o f show ?thesis by auto
qed


section \<open>Sale returns\<close>

lemma restore_stock_first:
  assumes "distinct (map (\<lambda>r. b_id (br_batch r)) rows)"
  shows "restore_stock rows sr = restore_first rows (sr_productId sr) (sr_quantity sr)"
  using assms
proof (induction rows)
  case Nil
  then show ?case by (simp add: restore_stock_def update_where_def)
next
  case (Cons r rows)
  show ?case
  proof (cases "br_product_id r = sr_productId sr")
    case True
    have "map (\<lambda>x. if b_id (br_batch x) = b_id (br_batch r) then f x else x) rows = rows" for f
    proof (rule map_idI)
      fix x assume "x \<in> set rows"
      then have "b_id (br_batch x) \<noteq> b_id (br_batch r)" using Cons.prems by (auto simp: image_iff)
      then show "(if b_id (br_batch x) = b_id (br_batch r) then f x else x) = x" by simp
    qed
    then show ?thesis using True by (simp add: restore_stock_def update_where_def)
  next
    case False
    have IH: "restore_stock rows sr = restore_first rows (sr_productId sr) (sr_quantity sr)"
      using Cons by simp
    show ?thesis
    proof (cases "find (\<lambda>r. br_product_id r = sr_productId sr) rows")
      case None
      then show ?thesis using False IH by (simp add: restore_stock_def)
    next
      case (Some batch)
      then have "batch \<in> set rows" by (auto simp: find_Some_iff)
      then have "b_id (br_batch r) \<noteq> b_id (br_batch batch)"
        using Cons.prems by (auto simp: image_iff)
      then show ?thesis using False IH Some by (simp add: restore_stock_def update_where_def)
    qed
  qed
qed

lemma restore_first_ids:
  "map (\<lambda>r. b_id (br_batch r)) (restore_first rows p q) = map (\<lambda>r. b_id (br_batch r)) rows"
  by (induction rows) (simp_all add: set_stock_def)

lemma foldl_restore_first:
  assumes "distinct (map (\<lambda>r. b_id (br_batch r)) rows)"
  shows "foldl restore_stock rows srs =
         foldl (\<lambda>rows sr. restore_first rows (sr_productId sr) (sr_quantity sr)) rows srs"
  using assms
proof (induction srs arbitrary: rows)
  case Nil
  then show ?case by simp
next
  case (Cons sr srs)
  have "distinct (map (\<lambda>r. b_id (br_batch r)) (restore_first rows (sr_productId sr) (sr_quantity sr)))"
    using Cons.prems by (simp add: restore_first_ids)
  from Cons.IH [OF this] show ?case using Cons.prems by (simp add: restore_stock_first)
qed

lemma with_quantity_fields:
  "item_id (with_quantity q x) = item_id x"
  "item_kind_of (with_quantity q x) = item_kind_of x"
  "item_quantity (with_quantity q x) = q"
  "is_product (with_quantity q x) = (item_kind_of x = product)"
  by (cases x; simp)+

lemma detailed_line:
  "map (\<lambda>i. (item_id i, item_kind_of i, item_quantity i))
     (List.map_filter
        (\<lambda>ri. map_option (with_quantity (ri_quantity ri))
                (find (\<lambda>i. item_id i = ri_id ri \<and> item_kind_of i = ri_type ri) xs)) [r]) =
   map (\<lambda>r. (ri_id r, ri_type r, ri_quantity r))
     (filter (\<lambda>r. list_ex (\<lambda>i. item_id i = ri_id r \<and> item_kind_of i = ri_type r) xs) [r])"
proof (cases "find (\<lambda>i. item_id i = ri_id r \<and> item_kind_of i = ri_type r) xs")
  case None
  then have n: "\<not> list_ex (\<lambda>i. item_id i = ri_id r \<and> item_kind_of i = ri_type r) xs"
    by (simp add: find_None_iff list_ex_iff)
  show ?thesis by (simp add: List.map_filter_def None n)
next
  case (Some x)
  then have x: "item_id x = ri_id r" "item_kind_of x = ri_type r" "x \<in> set xs"
    by (auto simp: find_Some_iff)
  then have n: "list_ex (\<lambda>i. item_id i = ri_id r \<and> item_kind_of i = ri_type r) xs"
    by (auto simp: list_ex_iff)
  show ?thesis by (simp add: List.map_filter_def Some n with_quantity_fields x)
qed

lemma detailed_lines:
  "map (\<lambda>i. (item_id i, item_kind_of i, item_quantity i)) (detailedReturnItems orig items) =
   map (\<lambda>r. (ri_id r, ri_type r, ri_quantity r)) (matched_lines orig items)"
proof (induction items)
  case Nil
  then show ?case by (simp add: detailedReturnItems_def matched_lines_def List.map_filter_simps)
next
  case (Cons r items)
  have "detailedReturnItems orig (r # items) =
        detailedReturnItems orig [r] @ detailedReturnItems orig items"
    by (simp add: detailedReturnItems_def List.map_filter_def)
  moreover have "matched_lines orig (r # items) = matched_lines orig [r] @ matched_lines orig items"
    by (simp add: matched_lines_def)
  ultimately show ?case
    using Cons detailed_line [where r = r and xs = "si_items orig"]
    by (simp add: detailedReturnItems_def matched_lines_def)
qed

lemma detailed_restores:
  "map (\<lambda>i. \<lparr>sr_productId = item_id i, sr_quantity = item_quantity i\<rparr>)
     (filter is_product (detailedReturnItems orig items)) =
   map (\<lambda>r. \<lparr>sr_productId = ri_id r, sr_quantity = ri_quantity r\<rparr>)
     (filter (\<lambda>r. ri_type r = product) (matched_lines orig items))"
proof -
  have p: "is_product = (\<lambda>i. item_kind_of i = product)"
  proof (rule ext)
    fix i show "is_product i = (item_kind_of i = product)" by (cases i) simp_all
  qed
  have "map (\<lambda>t. \<lparr>sr_productId = fst t, sr_quantity = snd (snd t)\<rparr>)
          (filter (\<lambda>t. fst (snd t) = product)
             (map (\<lambda>i. (item_id i, item_kind_of i, item_quantity i)) (detailedReturnItems orig items))) =
        map (\<lambda>t. \<lparr>sr_productId = fst t, sr_quantity = snd (snd t)\<rparr>)
          (filter (\<lambda>t. fst (snd t) = product)
             (map (\<lambda>r. (ri_id r, ri_type r, ri_quantity r)) (matched_lines orig items)))"
    by (simp only: detailed_lines)
  then show ?thesis by (simp add: filter_map comp_def p)
qed


text \<open>
  Claim C8.  Online and for an original invoice that is found, \<open>addSaleReturn\<close> calls
  \<open>createSaleReturn\<close> with an invoice of type \<open>return\<close> whose \<open>originalInvoiceId\<close> is the
  id of the original invoice.  Its lines are those of the request that name a line of the
  original invoice, each with the id, the kind and the quantity of the request, and there
  is one stock restore per such product line, for the product and the quantity of the
  request.  The action itself leaves the local list of invoices as it is.  In a store whose
  batch rows have distinct ids, the call appends one invoice row of type \<open>return\<close> linked to
  the original and the item rows of the new invoice, so that every earlier invoice row and
  item row is unchanged, and the batch rows it leaves are those it found after adding, for
  each requested product line in turn, the requested quantity to the stock of the first
  batch row found for the product.
\<close>

theorem addSaleReturn_spec:
  assumes "online ev"
    and "find (\<lambda>i. si_id i = oid) (saleInvoices st) = Some orig"
    and "distinct (map (\<lambda>r. b_id (br_batch r)) (t_product_batches d))"
  shows "\<exists>ri srs refund row rows.
     call (addSaleReturn ev resolved st oid items cashier) = Some (CreateSaleReturn ri srs refund) \<and>
     si_type ri = Return \<and> si_originalInvoiceId ri = Some oid \<and>
     si_items ri = detailedReturnItems orig items \<and>
     map (\<lambda>i. (item_id i, item_kind_of i, item_quantity i)) (si_items ri) =
       map (\<lambda>r. (ri_id r, ri_type r, ri_quantity r)) (matched_lines orig items) \<and>
     srs = map (\<lambda>i. \<lparr>sr_productId = item_id i, sr_quantity = item_quantity i\<rparr>)
             (filter is_product (si_items ri)) \<and>
     srs = map (\<lambda>r. \<lparr>sr_productId = ri_id r, sr_quantity = ri_quantity r\<rparr>)
             (filter (\<lambda>r. ri_type r = product) (matched_lines orig items)) \<and>
     saleInvoices (local_state (addSaleReturn ev resolved st oid items cashier)) = saleInvoices st \<and>
     t_sale_invoices (fst (api_createSaleReturn ev None ri srs refund d)) =
       t_sale_invoices d @ [row] \<and>
     sir_id row = si_id ri \<and> sir_type row = Return \<and> sir_original_invoice_id row = Some oid \<and>
     t_sale_invoice_items (fst (api_createSaleReturn ev None ri srs refund d)) =
       t_sale_invoice_items d @ rows \<and>
     map ir_invoice_id rows = map (\<lambda>i. si_id ri) (si_items ri) \<and>
     map (\<lambda>r. (ir_item_id r, ir_type r, ir_quantity r)) rows =
       map (\<lambda>r. (ri_id r, ri_type r, ri_quantity r)) (matched_lines orig items) \<and>
     t_product_batches (fst (api_createSaleReturn ev None ri srs refund d)) =
       foldl (\<lambda>rows sr. restore_first rows (sr_productId sr) (sr_quantity sr))
         (t_product_batches d) srs \<and>
     t_product_batches (fst (api_createSaleReturn ev None ri srs refund d)) =
       foldl (\<lambda>rows r. restore_first rows (ri_id r) (ri_quantity r))
         (t_product_batches d) (filter (\<lambda>r. ri_type r = product) (matched_lines orig items))"
proof -
  define its where "its = detailedReturnItems orig items"
  define total where "total = foldl (\<lambda>total i. total + return_price i * item_quantity i) 0 its"
  define ri where "ri =
     \<lparr>si_id = generateNextId ''R'' (map si_id (saleInvoices st)),
      si_type = Return, si_originalInvoiceId = Some oid,
      si_items = its, si_subtotal = total, si_totalDiscount = 0,
      si_totalAmount = total, si_timestamp = now ev, si_cashier = cashier,
      si_customerId = si_customerId orig\<rparr>"
  define srs where "srs =
     map (\<lambda>i. \<lparr>sr_productId = item_id i, sr_quantity = item_quantity i\<rparr>) (filter is_product its)"
  define refund where "refund =
     (case si_customerId orig of
        None \<Rightarrow> None
      | Some cid \<Rightarrow> if cid = [] then None else Some \<lparr>pa_id = cid, pa_amount = total\<rparr>)"
  define d' where "d' = fst (api_createSaleReturn ev None ri srs refund d)"
  define row where "row = (invoice_row_of ri)\<lparr>sir_type := Return\<rparr>"
  define rows where "rows =
     map (\<lambda>item. (item_row_of (si_id ri) item)\<lparr>ir_final_price := Some 0\<rparr>) (si_items ri)"
  define req where "req = filter (\<lambda>r. ri_type r = product) (matched_lines orig items)"
  have c: "call (addSaleReturn ev resolved st oid items cashier) =
             Some (CreateSaleReturn ri srs refund)"
    unfolding addSaleReturn_def Let_def using assms(1,2)
    by (simp add: its_def total_def ri_def srs_def refund_def split: option.splits)
  have l: "saleInvoices (local_state (addSaleReturn ev resolved st oid items cashier)) =
             saleInvoices st"
    unfolding addSaleReturn_def Let_def using assms(1,2)
    by (simp add: addActivityLocal_def)
  have i: "si_type ri = Return \<and> si_originalInvoiceId ri = Some oid \<and>
           si_items ri = detailedReturnItems orig items"
    by (simp add: ri_def its_def)
  have m: "map (\<lambda>i. (item_id i, item_kind_of i, item_quantity i)) (si_items ri) =
       map (\<lambda>r. (ri_id r, ri_type r, ri_quantity r)) (matched_lines orig items)"
    by (simp add: ri_def its_def detailed_lines)
  have s1: "srs = map (\<lambda>i. \<lparr>sr_productId = item_id i, sr_quantity = item_quantity i\<rparr>)
                   (filter is_product (si_items ri))"
    by (simp add: ri_def srs_def)
  have s2: "srs = map (\<lambda>r. \<lparr>sr_productId = ri_id r, sr_quantity = ri_quantity r\<rparr>) req"
    by (simp add: srs_def its_def req_def detailed_restores)
  have t: "t_sale_invoices d' = t_sale_invoices d @ [row] \<and>
           t_sale_invoice_items d' = t_sale_invoice_items d @ rows \<and>
           t_product_batches d' = foldl restore_stock (t_product_batches d) srs"
    unfolding d'_def api_createSaleReturn_def Let_def row_def rows_def
    by (simp split: option.splits)
  have r: "sir_id row = si_id ri \<and> sir_type row = Return \<and> sir_original_invoice_id row = Some oid"
    by (simp add: row_def invoice_row_of_def ri_def)
  have rs: "map ir_invoice_id rows = map (\<lambda>i. si_id ri) (si_items ri)"
  proof -
    have "ir_invoice_id (item_row_of k i) = k" for k i by (cases i) simp_all
    then show ?thesis by (simp add: rows_def comp_def)
  qed
  have rq: "map (\<lambda>r. (ir_item_id r, ir_type r, ir_quantity r)) rows =
       map (\<lambda>r. (ri_id r, ri_type r, ri_quantity r)) (matched_lines orig items)"
  proof -
    have "(ir_item_id (item_row_of k i), ir_type (item_row_of k i), ir_quantity (item_row_of k i)) =
          (item_id i, item_kind_of i, item_quantity i)" for k i
      by (cases i) simp_all
    then have "map (\<lambda>r. (ir_item_id r, ir_type r, ir_quantity r)) rows =
          map (\<lambda>i. (item_id i, item_kind_of i, item_quantity i)) (si_items ri)"
      by (simp add: rows_def comp_def)
    then show ?thesis by (simp only: m)
  qed
  have b1: "foldl restore_stock (t_product_batches d) srs =
           foldl (\<lambda>rows sr. restore_first rows (sr_productId sr) (sr_quantity sr))
             (t_product_batches d) srs"
    by (rule foldl_restore_first [OF assms(3)])
  have b2: "foldl (\<lambda>rows sr. restore_first rows (sr_productId sr) (sr_quantity sr))
             (t_product_batches d) srs =
            foldl (\<lambda>rows r. restore_first rows (ri_id r) (ri_quantity r)) (t_product_batches d) req"
    by (simp add: s2 foldl_map)
  have t3: "t_product_batches d' =
           foldl (\<lambda>rows sr. restore_first rows (sr_productId sr) (sr_quantity sr))
             (t_product_batches d) srs"
    using t b1 by simp
  have t4: "t_product_batches d' =
            foldl (\<lambda>rows r. restore_first rows (ri_id r) (ri_quantity r)) (t_product_batches d) req"
    using t3 b2 by simp
  have "call (addSaleReturn ev resolved st oid items cashier) = Some (CreateSaleReturn ri srs refund) \<and>
     si_type ri = Return \<and> si_originalInvoiceId ri = Some oid \<and>
     si_items ri = detailedReturnItems orig items \<and>
     map (\<lambda>i. (item_id i, item_kind_of i, item_quantity i)) (si_items ri) =
       map (\<lambda>r. (ri_id r, ri_type r, ri_quantity r)) (matched_lines orig items) \<and>
     srs = map (\<lambda>i. \<lparr>sr_productId = item_id i, sr_quantity = item_quantity i\<rparr>)
             (filter is_product (si_items ri)) \<and>
     srs = map (\<lambda>r. \<lparr>sr_productId = ri_id r, sr_quantity = ri_quantity r\<rparr>) req \<and>
     saleInvoices (local_state (addSaleReturn ev resolved st oid items cashier)) = saleInvoices st \<and>
     t_sale_invoices d' = t_sale_invoices d @ [row] \<and>
     sir_id row = si_id ri \<and> sir_type row = Return \<and> sir_original_invoice_id row = Some oid \<and>
     t_sale_invoice_items d' = t_sale_invoice_items d @ rows \<and>
     map ir_invoice_id rows = map (\<lambda>i. si_id ri) (si_items ri) \<and>
     map (\<lambda>r. (ir_item_id r, ir_type r, ir_quantity r)) rows =
       map (\<lambda>r. (ri_id r, ri_type r, ri_quantity r)) (matched_lines orig items) \<and>
     t_product_batches d' =
       foldl (\<lambda>rows sr. restore_first rows (sr_productId sr) (sr_quantity sr))
         (t_product_batches d) srs \<and>
     t_product_batches d' =
       foldl (\<lambda>rows r. restore_first rows (ri_id r) (ri_quantity r)) (t_product_batches d) req"
    by (intro conjI c l m s1 s2 rs rq t3 t4 i [THEN conjunct1] i [THEN conjunct2, THEN conjunct1]
          i [THEN conjunct2, THEN conjunct2] t [THEN conjunct1] t [THEN conjunct2, THEN conjunct1]
          r [THEN conjunct1] r [THEN conjunct2, THEN conjunct1] r [THEN conjunct2, THEN conjunct2])
  then show ?thesis unfolding d'_def req_def
    by (intro exI [of _ ri] exI [of _ srs] exI [of _ refund] exI [of _ row] exI [of _ rows])
qed

text \<open>Witness: the five pens of invoice F1 were taken from batch b1 (three) and batch b2
  (two).  The request returns two pens and names a product that is not on the invoice:
  the return has the one line of two pens, and the two pens are added to b2, the first
  batch row of the product.\<close>

theorem addSaleReturn_spec_witness:
  "online example_env \<and>
   find (\<lambda>i. si_id i = ''F1'') (saleInvoices return_state) = Some pen_invoice \<and>
   distinct (map (\<lambda>r. b_id (br_batch r)) (t_product_batches return_db)) \<and>
   (\<exists>ri srs refund.
      call (addSaleReturn example_env True return_state ''F1''
              [\<lparr>ri_id = ''p1'', ri_type = product, ri_quantity = 2\<rparr>,
               \<lparr>ri_id = ''p9'', ri_type = product, ri_quantity = 1\<rparr>] ''ali'') =
        Some (CreateSaleReturn ri srs refund) \<and>
      si_type ri = Return \<and> si_originalInvoiceId ri = Some ''F1'' \<and>
      map (\<lambda>i. (item_id i, item_kind_of i, item_quantity i)) (si_items ri) = [(''p1'', product, 2)] \<and>
      srs = [\<lparr>sr_productId = ''p1'', sr_quantity = 2\<rparr>] \<and>
      map (\<lambda>r. (sir_id r, sir_type r, sir_original_invoice_id r))
        (t_sale_invoices (fst (api_createSaleReturn example_env None ri srs refund return_db))) =
        [(''F1'', Sale, None), (si_id ri, Return, Some ''F1'')] \<and>
      map (\<lambda>r. (b_id (br_batch r), b_stock (br_batch r)))
        (t_product_batches (fst (api_createSaleReturn example_env None ri srs refund return_db))) =
        [(''b2'', 10), (''b1'', 0)])"
proof -
  have o: "online example_env" by (simp add: example_env_def)
  have f: "find (\<lambda>i. si_id i = ''F1'') (saleInvoices return_state) = Some pen_invoice"
    by (simp add: return_state_def pen_invoice_def)
  have b: "t_product_batches return_db =
      [\<lparr>br_product_id = ''p1'', br_batch = pen_batch2\<lparr>b_stock := 8\<rparr>\<rparr>,
       \<lparr>br_product_id = ''p1'', br_batch = pen_batch1\<lparr>b_stock := 0\<rparr>\<rparr>]"
    by (simp add: return_db_def clearAndRestoreData_def return_state_def sold_pen_def pen_def)
  have i: "t_sale_invoices return_db = [invoice_row_of pen_invoice]"
    by (simp add: return_db_def clearAndRestoreData_def return_state_def)
  have d: "distinct (map (\<lambda>r. b_id (br_batch r)) (t_product_batches return_db))"
    by (simp add: b pen_batch1_def pen_batch2_def)
  have its: "matched_lines pen_invoice
         [\<lparr>ri_id = ''p1'', ri_type = product, ri_quantity = 2\<rparr>,
          \<lparr>ri_id = ''p9'', ri_type = product, ri_quantity = 1\<rparr>] =
      [\<lparr>ri_id = ''p1'', ri_type = product, ri_quantity = 2\<rparr>]"
    by (simp add: matched_lines_def pen_invoice_def line_of_def pen_def)
  from addSaleReturn_spec [OF o f d, of True
      "[\<lparr>ri_id = ''p1'', ri_type = product, ri_quantity = 2\<rparr>,
        \<lparr>ri_id = ''p9'', ri_type = product, ri_quantity = 1\<rparr>]" "''ali''"]
  obtain ri srs refund row where
    "call (addSaleReturn example_env True return_state ''F1''
              [\<lparr>ri_id = ''p1'', ri_type = product, ri_quantity = 2\<rparr>,
               \<lparr>ri_id = ''p9'', ri_type = product, ri_quantity = 1\<rparr>] ''ali'') =
        Some (CreateSaleReturn ri srs refund)"
    "si_type ri = Return" "si_originalInvoiceId ri = Some ''F1''"
    "srs = [\<lparr>sr_productId = ''p1'', sr_quantity = 2\<rparr>]"
    "t_sale_invoices (fst (api_createSaleReturn example_env None ri srs refund return_db)) =
       t_sale_invoices return_db @ [row]"
    "sir_id row = si_id ri" "sir_type row = Return" "sir_original_invoice_id row = Some ''F1''"
    "t_product_batches (fst (api_createSaleReturn example_env None ri srs refund return_db)) =
       foldl (\<lambda>rows sr. restore_first rows (sr_productId sr) (sr_quantity sr))
         (t_product_batches return_db) srs"
    "map (\<lambda>i. (item_id i, item_kind_of i, item_quantity i)) (si_items ri) = [(''p1'', product, 2)]"
    by (auto simp: its)
  moreover from this(4,9) have
    "map (\<lambda>r. (b_id (br_batch r), b_stock (br_batch r)))
        (t_product_batches (fst (api_createSaleReturn example_env None ri srs refund return_db))) =
        [(''b2'', 10), (''b1'', 0)]"
    by (simp add: b set_stock_def pen_batch1_def pen_batch2_def)
  moreover have "map (\<lambda>r. (sir_id r, sir_type r, sir_original_invoice_id r))
        (t_sale_invoices return_db @ [row]) = [(''F1'', Sale, None), (si_id ri, Return, Some ''F1'')]"
    using calculation(6,7,8) by (simp add: i invoice_row_of_def pen_invoice_def)
  ultimately show ?thesis using o f d by auto
qed


section \<open>The customer's balance after a sale edit\<close>

lemma completeSale_edit_call:
  assumes "completeSale ev resolved st cashier (Some cid) = Some out"
    and "success (returned out)"
    and "editingSaleInvoiceId st = Some eid" and "eid \<noteq> []"
    and "find (\<lambda>i. si_id i = eid) (saleInvoices st) = Some old"
    and "si_customerId old = Some cid" and "cid \<noteq> []"
  shows "\<exists>fi rs ds.
     call out =
       Some (UpdateSale eid fi rs ds
              (Some \<lparr>cp_id = cid, cp_oldAmount = si_totalAmount old,
                     cp_newAmount = si_totalAmount fi,
                     cp_transactionDescription = SaleInvoiceEditedNo eid\<rparr>)) \<and>
     invoice (returned out) = Some fi \<and> si_id fi = eid"
  using assms
  by (auto simp: completeSale_def failure_def Let_def truthy_def
           split: if_splits sum.splits)

lemma api_updateSale_customer:
  assumes "single_row (\<lambda>c. c_id c = cp_id cu) (t_customers d) = Some customer"
  shows "snd (api_updateSale None eid fi rs ds (Some cu) d) \<and>
     t_customers (fst (api_updateSale None eid fi rs ds (Some cu) d)) =
       map (\<lambda>c. if c_id c = cp_id cu
                 then c\<lparr>c_balance := c_balance customer - cp_oldAmount cu + cp_newAmount cu\<rparr>
                 else c) (t_customers d) \<and>
     t_customer_transactions (fst (api_updateSale None eid fi rs ds (Some cu) d)) =
       map (\<lambda>t. if ct_invoiceId t = Some eid \<and> ct_type t = credit_sale
                 then t\<lparr>ct_amount := cp_newAmount cu,
                        ct_description := cp_transactionDescription cu\<rparr>
                 else t) (t_customer_transactions d)"
  using assms by (simp add: api_updateSale_def Let_def update_where_def)

text \<open>
  Claim C4.  Let \<open>completeSale\<close> succeed in edit mode for the invoice \<open>eid\<close>, with the
  customer \<open>cid\<close> that the invoice being edited is attached to, and let the store hold
  exactly one customer row for \<open>cid\<close>, with balance \<open>B\<close>.  Then \<open>updateSale\<close> is called
  with the old amount \<open>T1\<close>, the total of the invoice being edited, and the new amount
  \<open>T2\<close>, the total of the new invoice (the sum over the cart of effective price times
  quantity); the call resolves, and afterwards the customer's row has balance
  \<open>B - T1 + T2\<close>, every other customer row is unchanged, and every \<open>credit_sale\<close>
  transaction linked to the invoice has amount \<open>T2\<close>, every other transaction being
  unchanged.
\<close>

theorem updateSale_customer_balance:
  assumes "completeSale ev resolved st cashier (Some cid) = Some out"
    and "success (returned out)"
    and "editingSaleInvoiceId st = Some eid" and "eid \<noteq> []"
    and "find (\<lambda>i. si_id i = eid) (saleInvoices st) = Some old"
    and "si_customerId old = Some cid" and "cid \<noteq> []"
    and "single_row (\<lambda>c. c_id c = cid) (t_customers d) = Some customer"
  shows "\<exists>fi rs ds cu.
     call out = Some (UpdateSale eid fi rs ds (Some cu)) \<and>
     invoice (returned out) = Some fi \<and>
     si_totalAmount fi = (\<Sum>i\<leftarrow>cart st. effective_price i * item_quantity i) \<and>
     cp_id cu = cid \<and> cp_oldAmount cu = si_totalAmount old \<and> cp_newAmount cu = si_totalAmount fi \<and>
     snd (api_updateSale None eid fi rs ds (Some cu) d) \<and>
     t_customers (fst (api_updateSale None eid fi rs ds (Some cu) d)) =
       map (\<lambda>c. if c_id c = cid
                 then c\<lparr>c_balance := c_balance customer - si_totalAmount old + si_totalAmount fi\<rparr>
                 else c) (t_customers d) \<and>
     t_customer_transactions (fst (api_updateSale None eid fi rs ds (Some cu) d)) =
       map (\<lambda>t. if ct_invoiceId t = Some eid \<and> ct_type t = credit_sale
                 then t\<lparr>ct_amount := si_totalAmount fi, ct_description := SaleInvoiceEditedNo eid\<rparr>
                 else t) (t_customer_transactions d)"
proof -
  from completeSale_edit_call [OF assms(1-7)] obtain fi rs ds where
    c: "call out =
       Some (UpdateSale eid fi rs ds
              (Some \<lparr>cp_id = cid, cp_oldAmount = si_totalAmount old,
                     cp_newAmount = si_totalAmount fi,
                     cp_transactionDescription = SaleInvoiceEditedNo eid\<rparr>))"
    and i: "invoice (returned out) = Some fi"
    by blast
  define cu where "cu = \<lparr>cp_id = cid, cp_oldAmount = si_totalAmount old,
                     cp_newAmount = si_totalAmount fi,
                     cp_transactionDescription = SaleInvoiceEditedNo eid\<rparr>"
  have s: "single_row (\<lambda>c. c_id c = cp_id cu) (t_customers d) = Some customer"
    using assms(8) by (simp add: cu_def)
  have t: "si_totalAmount fi = (\<Sum>i\<leftarrow>cart st. effective_price i * item_quantity i)"
    using completeSale_invoice [OF assms(1) i] by (simp add: newTotalAmount_sum)
  have "call out = Some (UpdateSale eid fi rs ds (Some cu)) \<and>
     invoice (returned out) = Some fi \<and>
     si_totalAmount fi = (\<Sum>i\<leftarrow>cart st. effective_price i * item_quantity i) \<and>
     cp_id cu = cid \<and> cp_oldAmount cu = si_totalAmount old \<and> cp_newAmount cu = si_totalAmount fi \<and>
     snd (api_updateSale None eid fi rs ds (Some cu) d) \<and>
     t_customers (fst (api_updateSale None eid fi rs ds (Some cu) d)) =
       map (\<lambda>c. if c_id c = cid
                 then c\<lparr>c_balance := c_balance customer - si_totalAmount old + si_totalAmount fi\<rparr>
                 else c) (t_customers d) \<and>
     t_customer_transactions (fst (api_updateSale None eid fi rs ds (Some cu) d)) =
       map (\<lambda>t. if ct_invoiceId t = Some eid \<and> ct_type t = credit_sale
                 then t\<lparr>ct_amount := si_totalAmount fi, ct_description := SaleInvoiceEditedNo eid\<rparr>
                 else t) (t_customer_transactions d)"
    using c i t api_updateSale_customer [OF s, of eid fi rs ds]
    by (simp add: cu_def)
  then show ?thesis
    by (intro exI [of _ fi] exI [of _ rs] exI [of _ ds] exI [of _ cu])
qed


text \<open>Witness: invoice F1 of total 50 is edited to four units of ink, total 200, while the
  store holds the balance 80 for the customer (the ledger alone would give 50): the new
  balance is 80 - 50 + 200 = 230 and the ledger entry of F1 has amount 200.\<close>

lemma edit_sale_succeeds:
  "(case completeSale example_env True edit_state ''ali'' (Some ''c1'') of
      None \<Rightarrow> False
    | Some out \<Rightarrow> success (returned out))"
  by code_simp

theorem updateSale_customer_balance_witness:
  "\<exists>out. completeSale example_env True edit_state ''ali'' (Some ''c1'') = Some out \<and>
     success (returned out) \<and>
     editingSaleInvoiceId edit_state = Some ''F1'' \<and>
     find (\<lambda>i. si_id i = ''F1'') (saleInvoices edit_state) = Some invoice_F1 \<and>
     si_customerId invoice_F1 = Some ''c1'' \<and>
     single_row (\<lambda>c. c_id c = ''c1'') (t_customers (edit_db\<lparr>t_customers := [customer_c1 80]\<rparr>)) =
       Some (customer_c1 80) \<and>
     (\<exists>fi rs ds cu.
        call out = Some (UpdateSale ''F1'' fi rs ds (Some cu)) \<and>
        si_totalAmount fi = 200 \<and>
        map c_balance (t_customers (fst (api_updateSale None ''F1'' fi rs ds (Some cu)
          (edit_db\<lparr>t_customers := [customer_c1 80]\<rparr>)))) = [230] \<and>
        map ct_amount (t_customer_transactions (fst (api_updateSale None ''F1'' fi rs ds (Some cu)
          (edit_db\<lparr>t_customers := [customer_c1 80]\<rparr>)))) = [200])"
proof -
  obtain out where o: "completeSale example_env True edit_state ''ali'' (Some ''c1'') = Some out"
    and s: "success (returned out)"
    using edit_sale_succeeds by (auto split: option.splits)
  have e: "editingSaleInvoiceId edit_state = Some ''F1''" by (simp add: edit_state_def)
  have f: "find (\<lambda>i. si_id i = ''F1'') (saleInvoices edit_state) = Some invoice_F1"
    by (simp add: edit_state_def invoice_F1_def)
  have c: "si_customerId invoice_F1 = Some ''c1''" by (simp add: invoice_F1_def)
  have r: "single_row (\<lambda>c. c_id c = ''c1'') (t_customers (edit_db\<lparr>t_customers := [customer_c1 80]\<rparr>)) =
       Some (customer_c1 80)"
    by (simp add: single_row_def customer_c1_def)
  have t: "t_customer_transactions edit_db = [credit_F1]"
    by (simp add: edit_db_def clearAndRestoreData_def edit_state_def)
  have k: "cart edit_state = [ink_line 4]" by (simp add: edit_state_def)
  from updateSale_customer_balance [OF o s e _ f c _ r]
  obtain fi rs ds cu where
    "call out = Some (UpdateSale ''F1'' fi rs ds (Some cu))"
    "si_totalAmount fi = 200"
    "map c_balance (t_customers (fst (api_updateSale None ''F1'' fi rs ds (Some cu)
          (edit_db\<lparr>t_customers := [customer_c1 80]\<rparr>)))) = [230]"
    "map ct_amount (t_customer_transactions (fst (api_updateSale None ''F1'' fi rs ds (Some cu)
          (edit_db\<lparr>t_customers := [customer_c1 80]\<rparr>)))) = [200]"
    by (auto simp: t k ink_line_def customer_c1_def credit_F1_def invoice_F1_def)
  with o s e f c r show ?thesis by auto
qed


section \<open>Backup and restore\<close>







section \<open>Export followed by import\<close>





text \<open>Offline, or when the user does not confirm, \<open>importData\<close> changes nothing.\<close>

lemma importData_guarded:
  "\<not> online ev \<or> \<not> confirmed \<Longrightarrow> importData ev confirmed data st d = (st, d)"
  by (auto simp: importData_def)




end
